theory Spec2Isabelle
  imports Complex_Main
begin

section \<open>Geometry refinement of pyFAI: a shallow embedding\<close>

text \<open>
  The theory follows \<^verbatim>\<open>geometryRefinement.py\<close>, class \<^verbatim>\<open>GeometryRefinement\<close>.
  Python floats are modelled as exact reals: rounding, overflow and infinities are not
  represented. The one non-number that the source produces on purpose, numpy's \<^verbatim>\<open>nan\<close>
  (\<^verbatim>\<open>numpy.arcsin\<close> outside \<open>[-1, 1]\<close>), is kept as a value of its own, because
  the comparison that decides a commit is false on it. The decimal literals of the source are
  written as fractions: \<^verbatim>\<open>1e10\<close> is \<open>10 ^ 10\<close>, \<^verbatim>\<open>1e-10\<close> is \<open>1 / 10 ^ 10\<close>,
  \<^verbatim>\<open>2.0e-10\<close> is \<open>2 / 10 ^ 10\<close> and \<^verbatim>\<open>1e-6\<close> is \<open>1 / 10 ^ 6\<close>.

  Two computations are stated a second time with every arithmetic result rounded, for the
  properties that turn on the last digit of a float: the bounds of \<^verbatim>\<open>set_tolerance\<close>
  (\<open>set_tolerance_rounded\<close>) and the two rescalings of the wavelength in
  \<^verbatim>\<open>refine2_wavelength\<close> (\<open>wavelength_to_param\<close>, \<open>wavelength_of_param\<close>). They take
  the rounding as a parameter; with the identity they are the exact versions, and with
  \<open>binary64\<close> they are what Python computes.
\<close>

subsection \<open>Values, errors and the dataset\<close>

text \<open>The exceptions the Python code can raise, as values.\<close>

datatype error =
    IndexError | ValueError | TypeError | AttributeError | UnboundLocalError
  | ZeroDivisionError | OSError

text \<open>A float64 as numpy computes it here: a number or \<^verbatim>\<open>nan\<close>.\<close>

datatype npfloat = Num real | NaN

fun nsub :: "npfloat \<Rightarrow> npfloat \<Rightarrow> npfloat" where
  "nsub (Num a) (Num b) = Num (a - b)"
| "nsub _ _ = NaN"

fun nadd :: "npfloat \<Rightarrow> npfloat \<Rightarrow> npfloat" where
  "nadd (Num a) (Num b) = Num (a + b)"
| "nadd _ _ = NaN"

fun nmul :: "npfloat \<Rightarrow> npfloat \<Rightarrow> npfloat" where
  "nmul (Num a) (Num b) = Num (a * b)"
| "nmul _ _ = NaN"

text \<open>\<^verbatim>\<open>x ** 2\<close> on an array element.\<close>

definition nsq :: "npfloat \<Rightarrow> npfloat" where
  "nsq x = nmul x x"

text \<open>\<^verbatim>\<open>a.sum()\<close>: the sum of an array, \<^verbatim>\<open>0.0\<close> for the empty one.\<close>

definition nsum :: "npfloat list \<Rightarrow> npfloat" where
  "nsum xs = foldr nadd xs (Num 0)"

text \<open>Python's \<^verbatim>\<open>a < b\<close> on floats: false as soon as one side is \<^verbatim>\<open>nan\<close>.\<close>

fun nlt :: "npfloat \<Rightarrow> npfloat \<Rightarrow> bool" where
  "nlt (Num a) (Num b) = (a < b)"
| "nlt _ _ = False"

text \<open>
  Python's \<^verbatim>\<open>a <= b\<close> on floats, false on \<^verbatim>\<open>nan\<close> in the same way: the comparison
  that a check of \<^emph>\<open>chi-squared after the call is at most chi-squared before it\<close> makes.
\<close>

fun nle :: "npfloat \<Rightarrow> npfloat \<Rightarrow> bool" where
  "nle (Num a) (Num b) = (a \<le> b)"
| "nle _ _ = False"

text \<open>
  \<^verbatim>\<open>self.data\<close>: a two-dimensional float64 array, given by its column count
  (\<^verbatim>\<open>self.data.shape[-1]\<close>) and its rows. Every row of a numpy array has that many
  entries (\<open>wf_dataset\<close>).
\<close>

record dataset =
  ncols :: nat
  rows :: "real list list"

definition wf_dataset :: "dataset \<Rightarrow> bool" where
  "wf_dataset d = list_all (\<lambda>r. length r = ncols d) (rows d)"

text \<open>\<^verbatim>\<open>self.data[:, j]\<close> for a constant \<open>j\<close>; numpy raises IndexError beyond the last column.\<close>

definition column :: "dataset \<Rightarrow> nat \<Rightarrow> error + real list" where
  "column d j = (if j < ncols d then Inr (map (\<lambda>r. r ! j) (rows d)) else Inl IndexError)"

text \<open>
  \<^verbatim>\<open>self.param\<close> is a Python list in some places (\<^verbatim>\<open>anneal\<close>, \<^verbatim>\<open>roca\<close>) and a
  numpy array in the others; the two differ in what methods they have.
\<close>

datatype pvec = PyList "real list" | NdArray "real list"

fun elems :: "pvec \<Rightarrow> real list" where
  "elems (PyList xs) = xs"
| "elems (NdArray xs) = xs"

subsection \<open>Rounding to binary64\<close>

text \<open>
  A Python float is a binary64 number: a sign, a significand of 53 bits and a power of two.
  \<^verbatim>\<open>+\<close>, \<^verbatim>\<open>-\<close>, \<^verbatim>\<open>*\<close> and \<^verbatim>\<open>/\<close> return the binary64 number nearest to the exact
  result, a tie going to the even significand; so does the reading of a decimal literal, and
  so does \<^verbatim>\<open>x ** 2\<close> (the \<^verbatim>\<open>pow\<close> of the C library, correctly rounded on a square).
  \<open>round_half_even\<close> is that rounding to an integer. For \<open>x\<close> with
  \<open>2\<^sup>e \<le> \<bar>x\<bar> < 2\<^sup>e\<^sup>+\<^sup>1\<close> the binary64 numbers around \<open>x\<close> are the multiples of \<open>2\<^sup>e\<^sup>-\<^sup>5\<^sup>2\<close>, and
  \<open>binary64 x\<close> is the nearest of them. Numbers below \<open>2\<^sup>-\<^sup>1\<^sup>0\<^sup>2\<^sup>2\<close> (subnormal) and from
  \<open>2\<^sup>1\<^sup>0\<^sup>2\<^sup>4\<close> on (overflow) are outside the range this describes; none occurs below.
\<close>

definition round_half_even :: "real \<Rightarrow> int" where
  "round_half_even x =
     (let n = \<lfloor>x\<rfloor>; r = x - of_int n
      in if r < 1 / 2 then n else if 1 / 2 < r then n + 1 else if even n then n else n + 1)"

definition binary64 :: "real \<Rightarrow> real" where
  "binary64 x =
     (if x = 0 then 0
      else (let u = 2 powr (of_int \<lfloor>log 2 \<bar>x\<bar>\<rfloor> - 52)
            in of_int (round_half_even (x / u)) * u))"

subsection \<open>The engine's state\<close>

text \<open>
  The attributes of a \<^verbatim>\<open>GeometryRefinement\<close> object that the methods below read or
  write. \<open>dist_f\<close> is the attribute \<^verbatim>\<open>dist\<close>. The wavelength is \<^verbatim>\<open>None\<close> until one is
  given (the constructor's default). The pixel sizes are those of the detector.
\<close>

record engine =
  data :: dataset
  dSpacing :: "real list"
  dist_f :: real
  poni1 :: real
  poni2 :: real
  rot1 :: real
  rot2 :: real
  rot3 :: real
  wavelength :: "real option"
  pixel1 :: real
  pixel2 :: real
  param :: pvec
  dist_min :: real
  dist_max :: real
  poni1_min :: real
  poni1_max :: real
  poni2_min :: real
  poni2_max :: real
  rot1_min :: real
  rot1_max :: real
  rot2_min :: real
  rot2_max :: real
  rot3_min :: real
  rot3_max :: real
  wavelength_min :: real
  wavelength_max :: real

text \<open>The six pose fields in the order of the parameter vector, and the pose with the wavelength.\<close>

definition pose :: "engine \<Rightarrow> real list" where
  "pose s = [dist_f s, poni1 s, poni2 s, rot1 s, rot2 s, rot3 s]"

definition pose_wl :: "engine \<Rightarrow> real list \<times> real option" where
  "pose_wl s = (pose s, wavelength s)"

subsection \<open>set_tolerance\<close>

text \<open>
  \<^verbatim>\<open>set_tolerance(self, value=10)\<close>, lines 119-160. The bounds are assigned one after the
  other; the last two assignments multiply by \<^verbatim>\<open>self.wavelength\<close> and raise TypeError when
  it is \<^verbatim>\<open>None\<close>, with every earlier bound already written.
\<close>

definition set_tolerance :: "real \<Rightarrow> engine \<Rightarrow> engine \<times> (error + unit)" where
  "set_tolerance value s =
    (let low = 1 - value / 100;
         hi = 1 + value / 100;
         s0 = s\<lparr>dist_min := low * dist_f s, dist_max := hi * dist_f s\<rparr>;
         s1 = (if \<bar>poni1 s\<bar> > (value / 100) ^ 2
               then s0\<lparr>poni1_min := min (low * poni1 s) (hi * poni1 s),
                       poni1_max := max (low * poni1 s) (hi * poni1 s)\<rparr>
               else s0\<lparr>poni1_min := - ((value / 100) ^ 2), poni1_max := (value / 100) ^ 2\<rparr>);
         s2 = (if \<bar>poni2 s\<bar> > (value / 100) ^ 2
               then s1\<lparr>poni2_min := min (low * poni2 s) (hi * poni2 s),
                       poni2_max := max (low * poni2 s) (hi * poni2 s)\<rparr>
               else s1\<lparr>poni2_min := - ((value / 100) ^ 2), poni2_max := (value / 100) ^ 2\<rparr>);
         s3 = (if \<bar>rot1 s\<bar> > (value / 100) ^ 2
               then s2\<lparr>rot1_min := min (low * rot1 s) (hi * rot1 s),
                       rot1_max := max (low * rot1 s) (hi * rot1 s)\<rparr>
               else s2\<lparr>rot1_min := - ((value / 100) ^ 2), rot1_max := (value / 100) ^ 2\<rparr>);
         s4 = (if \<bar>rot2 s\<bar> > (value / 100) ^ 2
               then s3\<lparr>rot2_min := min (low * rot2 s) (hi * rot2 s),
                       rot2_max := max (low * rot2 s) (hi * rot2 s)\<rparr>
               else s3\<lparr>rot2_min := - ((value / 100) ^ 2), rot2_max := (value / 100) ^ 2\<rparr>);
         s5 = (if \<bar>rot3 s\<bar> > (value / 100) ^ 2
               then s4\<lparr>rot3_min := min (low * rot3 s) (hi * rot3 s),
                       rot3_max := max (low * rot3 s) (hi * rot3 s)\<rparr>
               else s4\<lparr>rot3_min := - ((value / 100) ^ 2), rot3_max := (value / 100) ^ 2\<rparr>)
     in case wavelength s of
          None \<Rightarrow> (s5, Inl TypeError)
        | Some w \<Rightarrow> (s5\<lparr>wavelength_min := low * w, wavelength_max := hi * w\<rparr>, Inr ()))"

text \<open>
  The same method with the result of every arithmetic operation rounded by \<open>rnd\<close>:
  \<^verbatim>\<open>value / 100.\<close>, \<^verbatim>\<open>1.0 - value / 100.\<close>, \<^verbatim>\<open>1.0 + value / 100.\<close>,
  \<^verbatim>\<open>(value / 100.) ** 2\<close> and each product. The negation, \<^verbatim>\<open>abs\<close>, \<^verbatim>\<open>min\<close>,
  \<^verbatim>\<open>max\<close> and the comparisons are exact on floats. \<open>set_tolerance_rounded (\<lambda>x. x)\<close> is
  \<open>set_tolerance\<close>; \<open>set_tolerance_rounded binary64\<close> is the method on Python floats.
\<close>

definition set_tolerance_rounded ::
  "(real \<Rightarrow> real) \<Rightarrow> real \<Rightarrow> engine \<Rightarrow> engine \<times> (error + unit)" where
  "set_tolerance_rounded rnd value s =
    (let q = rnd (value / 100);
         low = rnd (1 - q);
         hi = rnd (1 + q);
         sq = rnd (q ^ 2);
         s0 = s\<lparr>dist_min := rnd (low * dist_f s), dist_max := rnd (hi * dist_f s)\<rparr>;
         s1 = (if \<bar>poni1 s\<bar> > sq
               then s0\<lparr>poni1_min := min (rnd (low * poni1 s)) (rnd (hi * poni1 s)),
                       poni1_max := max (rnd (low * poni1 s)) (rnd (hi * poni1 s))\<rparr>
               else s0\<lparr>poni1_min := - sq, poni1_max := sq\<rparr>);
         s2 = (if \<bar>poni2 s\<bar> > sq
               then s1\<lparr>poni2_min := min (rnd (low * poni2 s)) (rnd (hi * poni2 s)),
                       poni2_max := max (rnd (low * poni2 s)) (rnd (hi * poni2 s))\<rparr>
               else s1\<lparr>poni2_min := - sq, poni2_max := sq\<rparr>);
         s3 = (if \<bar>rot1 s\<bar> > sq
               then s2\<lparr>rot1_min := min (rnd (low * rot1 s)) (rnd (hi * rot1 s)),
                       rot1_max := max (rnd (low * rot1 s)) (rnd (hi * rot1 s))\<rparr>
               else s2\<lparr>rot1_min := - sq, rot1_max := sq\<rparr>);
         s4 = (if \<bar>rot2 s\<bar> > sq
               then s3\<lparr>rot2_min := min (rnd (low * rot2 s)) (rnd (hi * rot2 s)),
                       rot2_max := max (rnd (low * rot2 s)) (rnd (hi * rot2 s))\<rparr>
               else s3\<lparr>rot2_min := - sq, rot2_max := sq\<rparr>);
         s5 = (if \<bar>rot3 s\<bar> > sq
               then s4\<lparr>rot3_min := min (rnd (low * rot3 s)) (rnd (hi * rot3 s)),
                       rot3_max := max (rnd (low * rot3 s)) (rnd (hi * rot3 s))\<rparr>
               else s4\<lparr>rot3_min := - sq, rot3_max := sq\<rparr>)
     in case wavelength s of
          None \<Rightarrow> (s5, Inl TypeError)
        | Some w \<Rightarrow> (s5\<lparr>wavelength_min := rnd (low * w), wavelength_max := rnd (hi * w)\<rparr>, Inr ()))"

subsection \<open>External collaborators\<close>

text \<open>
  What the class uses and does not define, taken as parameters:
  \<^item> \<open>tth\<close>: \<^verbatim>\<open>self.tth(d1, d2, param)\<close> of the geometry base class, the predicted
    scattering angle of one pixel position for a parameter vector (applied to arrays
    position by position);
  \<^item> \<open>calc_cartesian\<close>: \<^verbatim>\<open>self.detector.calc_cartesian_positions\<close>, pixel to metric
    coordinates of one position;
  \<^item> the minimisers of \<^verbatim>\<open>scipy.optimize\<close>, each given the objective, the start vector and
    the arguments the source passes, returning the candidate or raising;
  \<^item> \<open>roca_stdout\<close>: the lines the external program prints, from the observations written
    to its input file and its numeric arguments, or OSError when it cannot be started;
  \<^item> \<open>py_float\<close>: Python's \<^verbatim>\<open>float(str)\<close>, \<open>None\<close> where it raises ValueError.
\<close>

record externals =
  tth :: "real \<Rightarrow> real \<Rightarrow> real list \<Rightarrow> npfloat"
  calc_cartesian :: "real \<Rightarrow> real \<Rightarrow> real \<times> real"
  sp_leastsq :: "(real list \<Rightarrow> error + npfloat list) \<Rightarrow> real list \<Rightarrow> error + (real list \<times> int)"
  sp_fmin_slsqp :: "(real list \<Rightarrow> error + npfloat) \<Rightarrow> real list \<Rightarrow> nat
                     \<Rightarrow> (real \<times> real) list \<Rightarrow> error + real list"
  sp_fmin :: "(real list \<Rightarrow> error + npfloat) \<Rightarrow> real list \<Rightarrow> nat \<Rightarrow> error + real list"
  sp_anneal :: "(real list \<Rightarrow> error + npfloat) \<Rightarrow> real list \<Rightarrow> real list \<Rightarrow> real list
                 \<Rightarrow> nat \<Rightarrow> error + real list"
  roca_stdout :: "real list list \<Rightarrow> real list \<Rightarrow> error + string list"
  py_float :: "string \<Rightarrow> real option"

subsection \<open>guess_poni\<close>

text \<open>
  \<^verbatim>\<open>guess_poni(self)\<close>, lines 102-117. \<^verbatim>\<open>self.data[:, 2]\<close> needs a third column;
  \<^verbatim>\<open>tth.min()\<close> raises ValueError on an empty array. The rows are sorted by their third
  entry and those below the minimum plus \<^verbatim>\<open>1e-6\<close> are kept; numpy's sort may order equal
  keys differently from \<open>sort_key\<close>, which changes the order of the summands only.

  The two assignments \<^verbatim>\<open>self.poni1 = ...\<close> and \<^verbatim>\<open>self.poni2 = ...\<close> go through the
  properties of the base class \<^verbatim>\<open>AzimuthalIntegrator\<close>, which is not part of this file.
  They are taken to store the value in the field; what else they may do, to
  \<^verbatim>\<open>self.param\<close> in particular, is not visible here, and the model leaves
  \<^verbatim>\<open>self.param\<close> as it is.
\<close>

definition guess_poni :: "externals \<Rightarrow> engine \<Rightarrow> engine \<times> (error + unit)" where
  "guess_poni ext s =
    (case column (data s) 2 of
       Inl e \<Rightarrow> (s, Inl e)
     | Inr tth0 \<Rightarrow>
        (let srtdata = sort_key (\<lambda>r. r ! 2) (rows (data s));
             tth1 = sort_key (\<lambda>x. x) tth0
         in if tth1 = [] then (s, Inl ValueError)
            else
              (let smallRing = filter (\<lambda>r. r ! 2 < Min (set tth1) + 1 / 10 ^ 6) srtdata;
                   smallRing_in_m = map (\<lambda>r. calc_cartesian ext (r ! 0) (r ! 1)) smallRing;
                   l = length smallRing
               in (s\<lparr>poni1 := sum_list (map fst smallRing_in_m) / real l,
                     poni2 := sum_list (map snd smallRing_in_m) / real l\<rparr>, Inr ()))))"

subsection \<open>Reference angle and residuals\<close>

text \<open>
  \<^verbatim>\<open>numpy.ascontiguousarray(rings, dtype=numpy.int32)\<close> truncates towards zero. A value
  outside the range of int32 is not modelled apart: its index would be out of range of any
  table shorter than \<open>2\<^sup>3\<^sup>1\<close> either way.
\<close>

definition to_int32 :: "real \<Rightarrow> int" where
  "to_int32 x = (if 0 \<le> x then \<lfloor>x\<rfloor> else \<lceil>x\<rceil>)"

definition astype_int32 :: "real list \<Rightarrow> real list" where
  "astype_int32 xs = map (\<lambda>x. real_of_int (to_int32 x)) xs"

text \<open>
  \<^verbatim>\<open>numpy.arcsin(a / b)\<close> on one element: dividing by zero gives an infinity or
  \<^verbatim>\<open>nan\<close>, and the arcsine of anything outside \<open>[-1, 1]\<close> is \<^verbatim>\<open>nan\<close>.
\<close>

definition np_arcsin_quot :: "real \<Rightarrow> real \<Rightarrow> npfloat" where
  "np_arcsin_quot a b =
     (if b = 0 then NaN
      else if - 1 \<le> a / b \<and> a / b \<le> 1 then Num (arcsin (a / b)) else NaN)"

text \<open>
  \<^verbatim>\<open>calc_2th(self, rings, wavelength)\<close>, lines 163-169. \<^verbatim>\<open>self.dSpacing[rings]\<close> is
  numpy's indexing by an integer array: a negative index counts from the end, an index out
  of range raises IndexError. Dividing \<^verbatim>\<open>None\<close> raises TypeError, after the indexing.
\<close>

definition calc_2th :: "engine \<Rightarrow> real list \<Rightarrow> real option \<Rightarrow> error + npfloat list" where
  "calc_2th s rings wl =
     (let idx = map to_int32 rings;
          n = int (length (dSpacing s))
      in if list_all (\<lambda>i. - n \<le> i \<and> i < n) idx
         then (case wl of
                 None \<Rightarrow> Inl TypeError
               | Some w \<Rightarrow>
                   Inr (map (\<lambda>i. nmul (Num 2)
                               (np_arcsin_quot w (2 / 10 ^ 10 * (dSpacing s ! nat (i mod n))))) idx))
         else Inl IndexError)"

definition tth_arr :: "externals \<Rightarrow> real list \<Rightarrow> real list \<Rightarrow> real list \<Rightarrow> npfloat list" where
  "tth_arr ext d1 d2 p = map2 (\<lambda>a b. tth ext a b p) d1 d2"

definition residu1 ::
  "externals \<Rightarrow> engine \<Rightarrow> real list \<Rightarrow> real list \<Rightarrow> real list \<Rightarrow> real list \<Rightarrow> error + npfloat list" where
  "residu1 ext s p d1 d2 rings =
     (case calc_2th s rings (wavelength s) of
        Inl e \<Rightarrow> Inl e
      | Inr ref \<Rightarrow> Inr (map2 nsub (tth_arr ext d1 d2 p) ref))"

text \<open>\<^verbatim>\<open>param[6]\<close> raises IndexError on a vector of fewer than seven entries.\<close>

definition residu1_wavelength ::
  "externals \<Rightarrow> engine \<Rightarrow> real list \<Rightarrow> real list \<Rightarrow> real list \<Rightarrow> real list \<Rightarrow> error + npfloat list" where
  "residu1_wavelength ext s p d1 d2 rings =
     (if length p < 7 then Inl IndexError
      else case calc_2th s rings (Some (p ! 6 * (1 / 10 ^ 10))) of
             Inl e \<Rightarrow> Inl e
           | Inr ref \<Rightarrow> Inr (map2 nsub (tth_arr ext d1 d2 p) ref))"

definition residu2 ::
  "externals \<Rightarrow> engine \<Rightarrow> real list \<Rightarrow> real list \<Rightarrow> real list \<Rightarrow> real list \<Rightarrow> error + npfloat" where
  "residu2 ext s p d1 d2 rings =
     (case residu1 ext s p d1 d2 rings of
        Inl e \<Rightarrow> Inl e
      | Inr r \<Rightarrow> Inr (nsum (map nsq r)))"

definition residu2_weighted ::
  "externals \<Rightarrow> engine \<Rightarrow> real list \<Rightarrow> real list \<Rightarrow> real list \<Rightarrow> real list \<Rightarrow> real list
     \<Rightarrow> error + npfloat" where
  "residu2_weighted ext s p d1 d2 rings weight =
     (case residu1 ext s p d1 d2 rings of
        Inl e \<Rightarrow> Inl e
      | Inr r \<Rightarrow> Inr (nsum (map2 (\<lambda>w x. nmul (Num w) (nsq x)) weight r)))"

definition residu2_wavelength ::
  "externals \<Rightarrow> engine \<Rightarrow> real list \<Rightarrow> real list \<Rightarrow> real list \<Rightarrow> real list \<Rightarrow> error + npfloat" where
  "residu2_wavelength ext s p d1 d2 rings =
     (case residu1_wavelength ext s p d1 d2 rings of
        Inl e \<Rightarrow> Inl e
      | Inr r \<Rightarrow> Inr (nsum (map nsq r)))"

definition residu2_wavelength_weighted ::
  "externals \<Rightarrow> engine \<Rightarrow> real list \<Rightarrow> real list \<Rightarrow> real list \<Rightarrow> real list \<Rightarrow> real list
     \<Rightarrow> error + npfloat" where
  "residu2_wavelength_weighted ext s p d1 d2 rings weight =
     (case residu1_wavelength ext s p d1 d2 rings of
        Inl e \<Rightarrow> Inl e
      | Inr r \<Rightarrow> Inr (nsum (map2 (\<lambda>w x. nmul (Num w) (nsq x)) weight r)))"

subsection \<open>Chi-squared\<close>

text \<open>
  The three columns \<^verbatim>\<open>self.data[:, 0], self.data[:, 1], self.data[:, 2]\<close> that every
  caller passes on.
\<close>

definition xyz :: "dataset \<Rightarrow> error + (real list \<times> real list \<times> real list)" where
  "xyz d =
     (case column d 0 of Inl e \<Rightarrow> Inl e | Inr c0 \<Rightarrow>
       (case column d 1 of Inl e \<Rightarrow> Inl e | Inr c1 \<Rightarrow>
         (case column d 2 of Inl e \<Rightarrow> Inl e | Inr c2 \<Rightarrow> Inr (c0, c1, c2))))"

text \<open>\<^verbatim>\<open>chi2(self, param=None)\<close>, lines 384-388: without an argument it reads \<^verbatim>\<open>self.param\<close>.\<close>

definition chi2 :: "externals \<Rightarrow> engine \<Rightarrow> real list option \<Rightarrow> error + npfloat" where
  "chi2 ext s popt =
     (let p = (case popt of None \<Rightarrow> elems (param s) | Some q \<Rightarrow> q)
      in case xyz (data s) of
           Inl e \<Rightarrow> Inl e
         | Inr (c0, c1, c2) \<Rightarrow> residu2 ext s p c0 c1 c2)"

text \<open>
  \<^verbatim>\<open>chi2_wavelength(self, param=None)\<close>, lines 390-396. Without an argument, a
  six-element \<^verbatim>\<open>self.param\<close> is extended in place by \<^verbatim>\<open>param.append(...)\<close>: a Python list
  has that method and keeps the seventh entry afterwards; a numpy array has no
  \<^verbatim>\<open>append\<close> and the call raises AttributeError.
\<close>

definition chi2_wavelength ::
  "externals \<Rightarrow> engine \<Rightarrow> real list option \<Rightarrow> engine \<times> (error + npfloat)" where
  "chi2_wavelength ext s popt =
     (let objective = (\<lambda>s' p. case xyz (data s') of
                                 Inl e \<Rightarrow> Inl e
                               | Inr (c0, c1, c2) \<Rightarrow>
                                   residu2_wavelength ext s' p c0 c1 (astype_int32 c2))
      in case popt of
           Some p \<Rightarrow> (s, objective s p)
         | None \<Rightarrow>
            (if length (elems (param s)) = 6
             then (case param s of
                     NdArray xs \<Rightarrow> (s, Inl AttributeError)
                   | PyList xs \<Rightarrow>
                      (case wavelength s of
                         None \<Rightarrow> (s, Inl TypeError)
                       | Some w \<Rightarrow>
                          (let s' = s\<lparr>param := PyList (xs @ [10 ^ 10 * w])\<rparr>
                           in (s', objective s' (xs @ [10 ^ 10 * w])))))
             else (s, objective s (elems (param s)))))"

subsection \<open>The commit step\<close>

text \<open>
  \<^verbatim>\<open>abs(self.param - newParam).argmax()\<close>, the index the log line reports: the first
  position of the largest absolute difference. numpy subtracts arrays of equal length, or
  stretches a one-element array along the other; any other pair of lengths raises ValueError,
  and so does \<^verbatim>\<open>argmax\<close> of an empty array.
\<close>

definition argmax :: "real list \<Rightarrow> nat" where
  "argmax xs = length (takeWhile (\<lambda>x. x \<noteq> fold max (tl xs) (hd xs)) xs)"

definition maxdelta_index :: "real list \<Rightarrow> real list \<Rightarrow> error + nat" where
  "maxdelta_index p q =
     (let delta = (if length p = length q then Some (map2 (\<lambda>a b. \<bar>a - b\<bar>) p q)
                   else if length q = 1 then Some (map (\<lambda>a. \<bar>a - hd q\<bar>) p)
                   else if length p = 1 then Some (map (\<lambda>b. \<bar>hd p - b\<bar>) q)
                   else None)
      in case delta of
           None \<Rightarrow> Inl ValueError
         | Some ds \<Rightarrow> if ds = [] then Inl ValueError else Inr (argmax ds))"

text \<open>
  The block that ends \<^verbatim>\<open>refine1\<close>, \<^verbatim>\<open>refine2\<close>, \<^verbatim>\<open>simplex\<close> and \<^verbatim>\<open>anneal\<close>
  (lines 204-214, 253-263, 336-346, 372-382), the same in all four. The log line reads
  \<^verbatim>\<open>d[i]\<close>, \<^verbatim>\<open>self.param[i]\<close> and \<^verbatim>\<open>newParam[i]\<close>; then \<^verbatim>\<open>self.param\<close> is
  overwritten, and the six pose fields are assigned from the candidate, which raises
  ValueError unless it has six entries. The result is the value returned.
\<close>

definition accept6 ::
  "engine \<Rightarrow> real list \<Rightarrow> npfloat \<Rightarrow> npfloat \<Rightarrow> engine \<times> (error + npfloat option)" where
  "accept6 s newParam oldDeltaSq newDeltaSq =
     (if nlt newDeltaSq oldDeltaSq
      then (case maxdelta_index (elems (param s)) newParam of
              Inl e \<Rightarrow> (s, Inl e)
            | Inr i \<Rightarrow>
               (if 6 \<le> i \<or> length (elems (param s)) \<le> i \<or> length newParam \<le> i
                then (s, Inl IndexError)
                else (let s' = s\<lparr>param := NdArray newParam\<rparr>
                      in if length newParam = 6
                         then (s'\<lparr>dist_f := newParam ! 0, poni1 := newParam ! 1,
                                   poni2 := newParam ! 2, rot1 := newParam ! 3,
                                   rot2 := newParam ! 4, rot3 := newParam ! 5\<rparr>,
                               Inr (Some newDeltaSq))
                         else (s', Inl ValueError))))
      else (s, Inr (Some oldDeltaSq)))"

text \<open>
  The block that ends \<^verbatim>\<open>refine2_wavelength\<close> (lines 311-320): the first six entries of
  the candidate go to the pose fields, the last one, times \<^verbatim>\<open>1e-10\<close>, to the wavelength.
\<close>

definition accept7 ::
  "engine \<Rightarrow> real list \<Rightarrow> npfloat \<Rightarrow> npfloat \<Rightarrow> engine \<times> (error + npfloat option)" where
  "accept7 s newParam oldDeltaSq newDeltaSq =
     (if nlt newDeltaSq oldDeltaSq
      then (case maxdelta_index (elems (param s)) newParam of
              Inl e \<Rightarrow> (s, Inl e)
            | Inr i \<Rightarrow>
               (if 7 \<le> i \<or> length (elems (param s)) \<le> i \<or> length newParam \<le> i
                then (s, Inl IndexError)
                else (let s' = s\<lparr>param := NdArray newParam\<rparr>
                      in if length newParam = 7
                         then (s'\<lparr>dist_f := newParam ! 0, poni1 := newParam ! 1,
                                   poni2 := newParam ! 2, rot1 := newParam ! 3,
                                   rot2 := newParam ! 4, rot3 := newParam ! 5,
                                   wavelength := Some (1 / 10 ^ 10 * newParam ! 6)\<rparr>,
                               Inr (Some newDeltaSq))
                         else (s', Inl ValueError))))
      else (s, Inr (Some oldDeltaSq)))"

subsection \<open>The strategies\<close>

text \<open>
  Every strategy returns the state it leaves behind, also when it raises, and either the
  error or the value returned (\<open>None\<close> is Python's \<^verbatim>\<open>None\<close>). Each is written in two
  parts: the call of the minimiser, which gives the candidate, and the comparison that
  follows it.

  The first statement of \<^verbatim>\<open>refine1\<close>, \<^verbatim>\<open>refine2\<close> and \<^verbatim>\<open>simplex\<close> stores the pose
  in \<^verbatim>\<open>self.param\<close> as a numpy array; \<^verbatim>\<open>anneal\<close> stores a Python list;
  \<^verbatim>\<open>refine2_wavelength\<close> stores seven entries, the last one the wavelength times
  \<^verbatim>\<open>1e10\<close>.
\<close>

definition snapshot :: "engine \<Rightarrow> engine" where
  "snapshot s = s\<lparr>param := NdArray (pose s)\<rparr>"

definition snapshot_list :: "engine \<Rightarrow> engine" where
  "snapshot_list s = s\<lparr>param := PyList (pose s)\<rparr>"

definition snapshot_wavelength :: "engine \<Rightarrow> real \<Rightarrow> engine" where
  "snapshot_wavelength s w = s\<lparr>param := NdArray (pose s @ [10 ^ 10 * w])\<rparr>"

text \<open>
  The two rescalings of the wavelength in \<^verbatim>\<open>refine2_wavelength\<close>, with the rounding of
  each product as a parameter: line 282, \<^verbatim>\<open>param[-1] = 1e10 * param[-1]\<close>, which gives
  the seventh entry of the snapshot, and line 317,
  \<^verbatim>\<open>self.wavelength = 1e-10 * newParam[-1]\<close>, which a commit executes. \<^verbatim>\<open>1e10\<close> is a
  binary64 number; \<^verbatim>\<open>1e-10\<close> is not, and the literal is read as the nearest one. With the
  identity as rounding these are the last entry of \<open>snapshot_wavelength\<close> and the wavelength
  that \<open>accept7\<close> writes.
\<close>

definition wavelength_to_param :: "(real \<Rightarrow> real) \<Rightarrow> real \<Rightarrow> real" where
  "wavelength_to_param rnd w = rnd (10 ^ 10 * w)"

definition wavelength_of_param :: "(real \<Rightarrow> real) \<Rightarrow> real \<Rightarrow> real" where
  "wavelength_of_param rnd c = rnd (rnd (1 / 10 ^ 10) * c)"

text \<open>
  The two evaluations of \<^verbatim>\<open>self.chi2\<close> and the commit block after them. The first
  argument is what the source passes for the old value: \<^verbatim>\<open>tuple(self.param)\<close> in
  \<^verbatim>\<open>refine1\<close> and \<^verbatim>\<open>simplex\<close>, nothing in \<^verbatim>\<open>anneal\<close>.
\<close>

definition compare6 ::
  "externals \<Rightarrow> engine \<Rightarrow> real list option \<Rightarrow> real list \<Rightarrow> engine \<times> (error + npfloat option)" where
  "compare6 ext s1 old_arg newParam =
     (case chi2 ext s1 old_arg of
        Inl e \<Rightarrow> (s1, Inl e)
      | Inr oldDeltaSq \<Rightarrow>
         (case chi2 ext s1 (Some newParam) of
            Inl e \<Rightarrow> (s1, Inl e)
          | Inr newDeltaSq \<Rightarrow> accept6 s1 newParam oldDeltaSq newDeltaSq))"

text \<open>\<^verbatim>\<open>refine1(self)\<close>, lines 192-214; the call of \<^verbatim>\<open>leastsq\<close> is lines 196-199.\<close>

definition refine1_candidate :: "externals \<Rightarrow> engine \<Rightarrow> error + real list" where
  "refine1_candidate ext s1 =
     (case xyz (data s1) of
        Inl e \<Rightarrow> Inl e
      | Inr (c0, c1, c2) \<Rightarrow>
         (case sp_leastsq ext (\<lambda>p. residu1 ext s1 p c0 c1 c2) (elems (param s1)) of
            Inl e \<Rightarrow> Inl e
          | Inr (newParam, rc) \<Rightarrow> Inr newParam))"

definition refine1 :: "externals \<Rightarrow> engine \<Rightarrow> engine \<times> (error + npfloat option)" where
  "refine1 ext s =
     (let s1 = snapshot s
      in case refine1_candidate ext s1 of
           Inl e \<Rightarrow> (s1, Inl e)
         | Inr newParam \<Rightarrow> compare6 ext s1 (Some (elems (param s1))) newParam)"

text \<open>
  The bounds list that \<^verbatim>\<open>refine2\<close> builds in its loop over the six names: a name in
  \<^verbatim>\<open>fix\<close> gets its current value twice, any other its stored minimum and maximum.
\<close>

definition bounds6 :: "engine \<Rightarrow> string list \<Rightarrow> (real \<times> real) list" where
  "bounds6 s fixed =
     [if ''dist'' \<in> set fixed then (dist_f s, dist_f s) else (dist_min s, dist_max s),
      if ''poni1'' \<in> set fixed then (poni1 s, poni1 s) else (poni1_min s, poni1_max s),
      if ''poni2'' \<in> set fixed then (poni2 s, poni2 s) else (poni2_min s, poni2_max s),
      if ''rot1'' \<in> set fixed then (rot1 s, rot1 s) else (rot1_min s, rot1_max s),
      if ''rot2'' \<in> set fixed then (rot2 s, rot2 s) else (rot2_min s, rot2_max s),
      if ''rot3'' \<in> set fixed then (rot3 s, rot3 s) else (rot3_min s, rot3_max s)]"

text \<open>
  Lines 228-248 of \<^verbatim>\<open>refine2\<close>: the column count selects the objective. With 3 columns
  the plain sum of squares is minimised, with 4 the weighted one; with any other count
  neither branch runs and \<^verbatim>\<open>newParam\<close> stays unbound (\<open>None\<close> here).
\<close>

definition refine2_candidate ::
  "externals \<Rightarrow> nat \<Rightarrow> string list \<Rightarrow> engine \<Rightarrow> error + real list option" where
  "refine2_candidate ext maxiter fixed s1 =
     (if ncols (data s1) = 3
      then (case xyz (data s1) of
              Inl e \<Rightarrow> Inl e
            | Inr (pos0, pos1, c2) \<Rightarrow>
               (case sp_fmin_slsqp ext (\<lambda>p. residu2 ext s1 p pos0 pos1 (astype_int32 c2))
                       (elems (param s1)) maxiter (bounds6 s1 fixed) of
                  Inl e \<Rightarrow> Inl e
                | Inr newParam \<Rightarrow> Inr (Some newParam)))
      else if ncols (data s1) = 4
      then (case xyz (data s1) of
              Inl e \<Rightarrow> Inl e
            | Inr (pos0, pos1, c2) \<Rightarrow>
               (case column (data s1) 3 of
                  Inl e \<Rightarrow> Inl e
                | Inr weight \<Rightarrow>
                   (case sp_fmin_slsqp ext
                           (\<lambda>p. residu2_weighted ext s1 p pos0 pos1 (astype_int32 c2) weight)
                           (elems (param s1)) maxiter (bounds6 s1 fixed) of
                      Inl e \<Rightarrow> Inl e
                    | Inr newParam \<Rightarrow> Inr (Some newParam))))
      else Inr None)"

text \<open>
  Lines 249-263 of \<^verbatim>\<open>refine2\<close>. \<^verbatim>\<open>self.chi2()\<close> is evaluated first; reading an unbound
  \<^verbatim>\<open>newParam\<close> on the next line raises UnboundLocalError.
\<close>

definition refine2_finish ::
  "externals \<Rightarrow> engine \<Rightarrow> real list option \<Rightarrow> engine \<times> (error + npfloat option)" where
  "refine2_finish ext s1 cand =
     (case chi2 ext s1 None of
        Inl e \<Rightarrow> (s1, Inl e)
      | Inr oldDeltaSq \<Rightarrow>
         (case cand of
            None \<Rightarrow> (s1, Inl UnboundLocalError)
          | Some newParam \<Rightarrow>
             (case chi2 ext s1 (Some newParam) of
                Inl e \<Rightarrow> (s1, Inl e)
              | Inr newDeltaSq \<Rightarrow> accept6 s1 newParam oldDeltaSq newDeltaSq)))"

text \<open>\<^verbatim>\<open>refine2(self, maxiter=1000000, fix=["wavelength"])\<close>, lines 216-263.\<close>

definition refine2 ::
  "externals \<Rightarrow> nat \<Rightarrow> string list \<Rightarrow> engine \<Rightarrow> engine \<times> (error + npfloat option)" where
  "refine2 ext maxiter fixed s =
     (let s1 = snapshot s
      in case refine2_candidate ext maxiter fixed s1 of
           Inl e \<Rightarrow> (s1, Inl e)
         | Inr cand \<Rightarrow> refine2_finish ext s1 cand)"

text \<open>
  Lines 271-306 of \<^verbatim>\<open>refine2_wavelength\<close>: as in \<^verbatim>\<open>refine2\<close>, with the wavelength as
  seventh parameter; its bounds are multiplied by \<^verbatim>\<open>1e10\<close> like its start value.
\<close>

definition refine2_wavelength_candidate ::
  "externals \<Rightarrow> nat \<Rightarrow> string list \<Rightarrow> engine \<Rightarrow> real \<Rightarrow> error + real list option" where
  "refine2_wavelength_candidate ext maxiter fixed s1 w =
     (let b7 = (if ''wavelength'' \<in> set fixed then (w, w)
                else (wavelength_min s1, wavelength_max s1));
          bounds = bounds6 s1 fixed @ [(fst b7 * 10 ^ 10, snd b7 * 10 ^ 10)]
      in if ncols (data s1) = 3
         then (case xyz (data s1) of
                 Inl e \<Rightarrow> Inl e
               | Inr (pos0, pos1, c2) \<Rightarrow>
                  (case sp_fmin_slsqp ext
                          (\<lambda>p. residu2_wavelength ext s1 p pos0 pos1 (astype_int32 c2))
                          (elems (param s1)) maxiter bounds of
                     Inl e \<Rightarrow> Inl e
                   | Inr newParam \<Rightarrow> Inr (Some newParam)))
         else if ncols (data s1) = 4
         then (case xyz (data s1) of
                 Inl e \<Rightarrow> Inl e
               | Inr (pos0, pos1, c2) \<Rightarrow>
                  (case column (data s1) 3 of
                     Inl e \<Rightarrow> Inl e
                   | Inr weight \<Rightarrow>
                      (case sp_fmin_slsqp ext
                              (\<lambda>p. residu2_wavelength_weighted ext s1 p pos0 pos1
                                     (astype_int32 c2) weight)
                              (elems (param s1)) maxiter bounds of
                         Inl e \<Rightarrow> Inl e
                       | Inr newParam \<Rightarrow> Inr (Some newParam))))
         else Inr None)"

text \<open>Lines 307-320 of \<^verbatim>\<open>refine2_wavelength\<close>, with \<^verbatim>\<open>chi2_wavelength\<close> in place of \<^verbatim>\<open>chi2\<close>.\<close>

definition refine2_wavelength_finish ::
  "externals \<Rightarrow> engine \<Rightarrow> real list option \<Rightarrow> engine \<times> (error + npfloat option)" where
  "refine2_wavelength_finish ext s1 cand =
     (case chi2_wavelength ext s1 None of
        (s2, Inl e) \<Rightarrow> (s2, Inl e)
      | (s2, Inr oldDeltaSq) \<Rightarrow>
         (case cand of
            None \<Rightarrow> (s2, Inl UnboundLocalError)
          | Some newParam \<Rightarrow>
             (case chi2_wavelength ext s2 (Some newParam) of
                (s3, Inl e) \<Rightarrow> (s3, Inl e)
              | (s3, Inr newDeltaSq) \<Rightarrow> accept7 s3 newParam oldDeltaSq newDeltaSq)))"

text \<open>
  \<^verbatim>\<open>refine2_wavelength(self, maxiter=1000000, fix=["wavelength"])\<close>, lines 265-320.
  With the wavelength \<^verbatim>\<open>None\<close> the call raises TypeError at line 281 or 282, where
  \<^verbatim>\<open>None\<close> is multiplied by \<^verbatim>\<open>1e10\<close>. By then line 268 has stored a seven-entry
  array in \<^verbatim>\<open>self.param\<close> whose last entry is \<^verbatim>\<open>nan\<close> (numpy's reading of
  \<^verbatim>\<open>None\<close> as a float64); a vector of reals cannot hold it, and the state is returned
  with \<^verbatim>\<open>self.param\<close> as it was. The pose fields and the wavelength are not assigned on
  this path.
\<close>

definition refine2_wavelength ::
  "externals \<Rightarrow> nat \<Rightarrow> string list \<Rightarrow> engine \<Rightarrow> engine \<times> (error + npfloat option)" where
  "refine2_wavelength ext maxiter fixed s =
     (case wavelength s of
        None \<Rightarrow> (s, Inl TypeError)
      | Some w \<Rightarrow>
         (let s1 = snapshot_wavelength s w
          in case refine2_wavelength_candidate ext maxiter fixed s1 w of
               Inl e \<Rightarrow> (s1, Inl e)
             | Inr cand \<Rightarrow> refine2_wavelength_finish ext s1 cand))"

text \<open>\<^verbatim>\<open>simplex(self, maxiter=1000000)\<close>, lines 323-346.\<close>

definition simplex_candidate :: "externals \<Rightarrow> nat \<Rightarrow> engine \<Rightarrow> error + real list" where
  "simplex_candidate ext maxiter s1 =
     (case xyz (data s1) of
        Inl e \<Rightarrow> Inl e
      | Inr (c0, c1, c2) \<Rightarrow>
         sp_fmin ext (\<lambda>p. residu2 ext s1 p c0 c1 c2) (elems (param s1)) maxiter)"

definition simplex :: "externals \<Rightarrow> nat \<Rightarrow> engine \<Rightarrow> engine \<times> (error + npfloat option)" where
  "simplex ext maxiter s =
     (let s1 = snapshot s
      in case simplex_candidate ext maxiter s1 of
           Inl e \<Rightarrow> (s1, Inl e)
         | Inr newParam \<Rightarrow> compare6 ext s1 (Some (elems (param s1))) newParam)"

text \<open>
  \<^verbatim>\<open>anneal(self, maxiter=1000000)\<close>, lines 348-382; \<open>sp_anneal\<close> stands for
  \<^verbatim>\<open>anneal(...)[0]\<close>.
\<close>

definition anneal_candidate :: "externals \<Rightarrow> nat \<Rightarrow> engine \<Rightarrow> error + real list" where
  "anneal_candidate ext maxiter s1 =
     (case xyz (data s1) of
        Inl e \<Rightarrow> Inl e
      | Inr (c0, c1, c2) \<Rightarrow>
         sp_anneal ext (\<lambda>p. residu2 ext s1 p c0 c1 c2) (elems (param s1))
           [dist_min s1, poni1_min s1, poni2_min s1, rot1_min s1, rot2_min s1, rot3_min s1]
           [dist_max s1, poni1_max s1, poni2_max s1, rot1_max s1, rot2_max s1, rot3_max s1]
           maxiter)"

definition anneal :: "externals \<Rightarrow> nat \<Rightarrow> engine \<Rightarrow> engine \<times> (error + npfloat option)" where
  "anneal ext maxiter s =
     (let s1 = snapshot_list s
      in case anneal_candidate ext maxiter s1 of
           Inl e \<Rightarrow> (s1, Inl e)
         | Inr newParam \<Rightarrow> compare6 ext s1 None newParam)"

subsection \<open>The external tool\<close>

text \<open>\<^verbatim>\<open>line.split()\<close>: the words of a line between runs of ASCII whitespace.\<close>

definition is_space :: "char \<Rightarrow> bool" where
  "is_space c = (c = CHR '' '' \<or> c = CHR 0x09 \<or> c = CHR 0x0A \<or> c = CHR 0x0B
                 \<or> c = CHR 0x0C \<or> c = CHR 0x0D)"

fun split_ws :: "string \<Rightarrow> string \<Rightarrow> string list" where
  "split_ws cur [] = (if cur = [] then [] else [cur])"
| "split_ws cur (c # cs) =
     (if is_space c then (if cur = [] then split_ws [] cs else cur # split_ws [] cs)
      else split_ws (cur @ [c]) cs)"

definition py_split :: "string \<Rightarrow> string list" where
  "py_split line = split_ws [] line"

text \<open>
  One of the six \<^verbatim>\<open>if word[0] == key: newParam[i] = f(float(word[1]))\<close> of the loop over
  the tool's output (lines 418-429); \<^verbatim>\<open>float\<close> raises ValueError on a word that is no number.
\<close>

definition roca_key ::
  "externals \<Rightarrow> string list \<Rightarrow> string \<Rightarrow> nat \<Rightarrow> (real \<Rightarrow> real) \<Rightarrow> real list \<Rightarrow> error + real list" where
  "roca_key ext word key i f newParam =
     (if word ! 0 = key
      then (case py_float ext (word ! 1) of
              None \<Rightarrow> Inl ValueError
            | Some v \<Rightarrow> Inr (newParam[i := f v]))
      else Inr newParam)"

definition and_then :: "error + 'a \<Rightarrow> ('a \<Rightarrow> error + 'b) \<Rightarrow> error + 'b" where
  "and_then r f = (case r of Inl e \<Rightarrow> Inl e | Inr x \<Rightarrow> f x)"

definition roca_line :: "externals \<Rightarrow> engine \<Rightarrow> string \<Rightarrow> real list \<Rightarrow> error + real list" where
  "roca_line ext s line newParam =
     (let word = py_split line
      in if length word = 3
         then and_then (roca_key ext word ''cen1'' 1 (\<lambda>v. v * pixel1 s) newParam) (\<lambda>p1.
              and_then (roca_key ext word ''cen2'' 2 (\<lambda>v. v * pixel2 s) p1) (\<lambda>p2.
              and_then (roca_key ext word ''dis'' 0 (\<lambda>v. v) p2) (\<lambda>p3.
              and_then (roca_key ext word ''rot1'' 3 (\<lambda>v. v) p3) (\<lambda>p4.
              and_then (roca_key ext word ''rot2'' 4 (\<lambda>v. v) p4) (\<lambda>p5.
                        roca_key ext word ''rot3'' 5 (\<lambda>v. v) p5)))))
         else Inr newParam)"

fun roca_lines :: "externals \<Rightarrow> engine \<Rightarrow> string list \<Rightarrow> real list \<Rightarrow> error + real list" where
  "roca_lines ext s [] newParam = Inr newParam"
| "roca_lines ext s (line # ls) newParam =
     (case roca_line ext s line newParam of
        Inl e \<Rightarrow> Inl e
      | Inr p \<Rightarrow> roca_lines ext s ls p)"

text \<open>
  \<^verbatim>\<open>roca(self)\<close>, lines 399-436. Writing the input file reads \<^verbatim>\<open>line[2]\<close> of every row;
  the arguments divide the two centre coordinates by the pixel sizes (a Python float
  division, ZeroDivisionError on zero). The candidate starts as the current pose and takes
  what the output lines give (lines 403-429).
\<close>

definition roca_candidate :: "externals \<Rightarrow> engine \<Rightarrow> error + real list" where
  "roca_candidate ext s =
     (if rows (data s) \<noteq> [] \<and> ncols (data s) < 3 then Inl IndexError
      else if pixel1 s = 0 \<or> pixel2 s = 0 then Inl ZeroDivisionError
      else
       (case roca_stdout ext (map (\<lambda>line. [line ! 2, line ! 0, line ! 1]) (rows (data s)))
               [pixel1 s, pixel2 s, poni1 s / pixel1 s, poni2 s / pixel2 s,
                dist_f s, rot1 s, rot2 s, rot3 s] of
          Inl e \<Rightarrow> Inl e
        | Inr out \<Rightarrow> roca_lines ext s out (pose s)))"

text \<open>
  Lines 430-436. The \<^verbatim>\<open>print\<close> evaluates \<^verbatim>\<open>self.chi2()\<close> and \<^verbatim>\<open>self.chi2(newParam)\<close>.
  The test compares the candidate with \<^verbatim>\<open>self.param\<close> as it stands: the method does not
  assign \<^verbatim>\<open>self.param\<close> before. There is no \<^verbatim>\<open>return\<close>: the value of the call is
  \<^verbatim>\<open>None\<close>.
\<close>

definition roca :: "externals \<Rightarrow> engine \<Rightarrow> engine \<times> (error + npfloat option)" where
  "roca ext s =
     (case roca_candidate ext s of
        Inl e \<Rightarrow> (s, Inl e)
      | Inr newParam \<Rightarrow>
         (case chi2 ext s None of
            Inl e \<Rightarrow> (s, Inl e)
          | Inr printed \<Rightarrow>
             (case chi2 ext s (Some newParam) of
                Inl e \<Rightarrow> (s, Inl e)
              | Inr newDeltaSq \<Rightarrow>
                 (case chi2 ext s (Some (elems (param s))) of
                    Inl e \<Rightarrow> (s, Inl e)
                  | Inr oldDeltaSq \<Rightarrow>
                     (if nlt newDeltaSq oldDeltaSq
                      then (s\<lparr>param := PyList newParam,
                              dist_f := newParam ! 0, poni1 := newParam ! 1,
                              poni2 := newParam ! 2, rot1 := newParam ! 3,
                              rot2 := newParam ! 4, rot3 := newParam ! 5\<rparr>, Inr None)
                      else (s, Inr None))))))"

subsection \<open>Concrete instances\<close>

text \<open>
  The instances at which the theorems below are evaluated. The forward model of the
  examples predicts the second parameter (\<open>poni1\<close>) as the angle of every pixel; the
  minimisers of \<open>idle_ext\<close> return their start vector, and its external tool prints
  nothing. The engine \<open>engine_at x\<close> holds one observation, at pixel \<open>(0, 0)\<close> on ring 0,
  and stands at \<open>poni1 = x\<close> with the default bounds of the constructor; its reference angle
  is 0, so its chi-squared is \<open>x\<^sup>2\<close>. Its \<^verbatim>\<open>self.param\<close> holds the pose, as a list, the
  way the first statement of \<^verbatim>\<open>anneal\<close> and a commit of \<^verbatim>\<open>roca\<close> leave it.
\<close>

definition idle_ext :: externals where
  "idle_ext =
     \<lparr>tth = (\<lambda>d1 d2 p. Num (p ! 1)),
      calc_cartesian = (\<lambda>a b. (a, b)),
      sp_leastsq = (\<lambda>f x0. Inr (x0, 1)),
      sp_fmin_slsqp = (\<lambda>f x0 it bounds. Inr x0),
      sp_fmin = (\<lambda>f x0 it. Inr x0),
      sp_anneal = (\<lambda>f x0 lower upper it. Inr x0),
      roca_stdout = (\<lambda>obs args. Inr []),
      py_float = (\<lambda>w. if w = ''1'' then Some 1 else None)\<rparr>"

definition one_point :: dataset where
  "one_point = \<lparr>ncols = 3, rows = [[0, 0, 0]]\<rparr>"

definition engine_at :: "real \<Rightarrow> engine" where
  "engine_at x =
     \<lparr>data = one_point, dSpacing = [1],
      dist_f = 1, poni1 = x, poni2 = 0, rot1 = 0, rot2 = 0, rot3 = 0,
      wavelength = Some 0, pixel1 = 1, pixel2 = 1,
      param = PyList [1, x, 0, 0, 0, 0],
      dist_min = 0, dist_max = 10,
      poni1_min = - 10000, poni1_max = 15000, poni2_min = - 10000, poni2_max = 15000,
      rot1_min = - pi, rot1_max = pi, rot2_min = - pi, rot2_max = pi,
      rot3_min = - pi, rot3_max = pi,
      wavelength_min = 1 / 10 ^ 15, wavelength_max = 100 / 10 ^ 10\<rparr>"

text \<open>An external tool that reports the centre \<^verbatim>\<open>cen1\<close> at pixel 1.\<close>

definition cen1_ext :: externals where
  "cen1_ext = idle_ext\<lparr>roca_stdout := (\<lambda>obs args. Inr [''cen1 1 px'' @ [CHR 0x0A]])\<rparr>"

text \<open>Minimisers that find the optimum of the examples: they set the second entry to 0.\<close>

definition solving_ext :: externals where
  "solving_ext =
     idle_ext\<lparr>sp_leastsq := (\<lambda>f x0. Inr (x0[1 := 0], 2)),
               sp_fmin_slsqp := (\<lambda>f x0 it bounds. Inr (x0[1 := 0])),
               sp_fmin := (\<lambda>f x0 it. Inr (x0[1 := 0])),
               sp_anneal := (\<lambda>f x0 lower upper it. Inr (x0[1 := 0]))\<rparr>"

text \<open>A dataset of five columns.\<close>

definition five_columns :: dataset where
  "five_columns = \<lparr>ncols = 5, rows = [[0, 0, 0, 1, 1]]\<rparr>"

text \<open>
  The engine at \<open>poni1 = 2\<close> with the wavelength \<^verbatim>\<open>1e-10\<close> and the d-spacing table
  \<^verbatim>\<open>[3e-10]\<close>, in metres: the quotient under the arcsine is \<open>10\<^sup>1\<^sup>0 / 6\<close>, the reference
  angle of its observation is \<^verbatim>\<open>nan\<close>, and so is its chi-squared at every parameter vector.
\<close>

definition nan_engine :: engine where
  "nan_engine = (engine_at 2)\<lparr>dSpacing := [3 / 10 ^ 10], wavelength := Some (1 / 10 ^ 10)\<rparr>"

section \<open>Properties\<close>

subsection \<open>What chi-squared depends on\<close>

text \<open>
  The residuals read the dataset, the d-spacing table and the wavelength of the engine,
  never \<^verbatim>\<open>self.param\<close> or the pose fields: the parameter vector is an argument.
\<close>

lemma calc_2th_param [simp]: "calc_2th (s\<lparr>param := q\<rparr>) = calc_2th s"
  by (intro ext) (simp add: calc_2th_def Let_def cong: if_cong option.case_cong)

lemma residu1_param [simp]: "residu1 ext (s\<lparr>param := q\<rparr>) = residu1 ext s"
  by (intro HOL.ext) (simp add: residu1_def)

lemma residu2_param [simp]: "residu2 ext (s\<lparr>param := q\<rparr>) = residu2 ext s"
  by (intro HOL.ext) (simp add: residu2_def)

lemma residu1_wavelength_param [simp]:
  "residu1_wavelength ext (s\<lparr>param := q\<rparr>) = residu1_wavelength ext s"
  by (intro HOL.ext) (simp add: residu1_wavelength_def)

lemma residu2_wavelength_param [simp]:
  "residu2_wavelength ext (s\<lparr>param := q\<rparr>) = residu2_wavelength ext s"
  by (intro HOL.ext) (simp add: residu2_wavelength_def)

lemma chi2_param_update [simp]: "chi2 ext (s\<lparr>param := q\<rparr>) (Some p) = chi2 ext s (Some p)"
  by (simp add: chi2_def split: sum.splits prod.splits)

lemma chi2_None: "chi2 ext s None = chi2 ext s (Some (elems (param s)))"
  by (simp add: chi2_def)

lemma chi2_same_inputs:
  "data s' = data s \<Longrightarrow> dSpacing s' = dSpacing s \<Longrightarrow> wavelength s' = wavelength s \<Longrightarrow>
   chi2 ext s' (Some p) = chi2 ext s (Some p)"
  by (simp add: chi2_def residu2_def residu1_def calc_2th_def Let_def
      split: sum.splits prod.splits cong: if_cong option.case_cong)

lemma chi2_wavelength_Some:
  "chi2_wavelength ext s (Some p) = (s, snd (chi2_wavelength ext s (Some p)))"
  by (simp add: chi2_wavelength_def)

lemma chi2_wavelength_param_update [simp]:
  "snd (chi2_wavelength ext (s\<lparr>param := q\<rparr>) (Some p)) = snd (chi2_wavelength ext s (Some p))"
  by (simp add: chi2_wavelength_def split: sum.splits prod.splits)

lemma chi2_wavelength_seven:
  "length (elems (param s)) \<noteq> 6 \<Longrightarrow>
   chi2_wavelength ext s None = (s, snd (chi2_wavelength ext s (Some (elems (param s)))))"
  by (simp add: chi2_wavelength_def)

text \<open>On a six-element Python list \<^verbatim>\<open>chi2_wavelength()\<close> appends and evaluates.\<close>

lemma chi2_wavelength_on_list:
  assumes "param s = PyList xs" "length xs = 6" "wavelength s = Some w"
  shows "chi2_wavelength ext s None
         = (s\<lparr>param := PyList (xs @ [10 ^ 10 * w])\<rparr>,
            snd (chi2_wavelength ext s (Some (xs @ [10 ^ 10 * w]))))"
  using assms by (simp add: chi2_wavelength_def Let_def split: sum.splits prod.splits)

subsection \<open>The snapshots\<close>

lemma pose_wl_param [simp]: "pose_wl (s\<lparr>param := q\<rparr>) = pose_wl s"
  by (simp add: pose_wl_def pose_def)

lemma pose_wl_snapshot [simp]:
  "pose_wl (snapshot s) = pose_wl s" "pose_wl (snapshot_list s) = pose_wl s"
  "pose_wl (snapshot_wavelength s w) = pose_wl s"
  by (simp_all add: snapshot_def snapshot_list_def snapshot_wavelength_def)

lemma pose_snapshot [simp]: "pose (snapshot s) = pose s" "pose (snapshot_list s) = pose s"
  by (simp_all add: snapshot_def snapshot_list_def pose_def)

lemma pose_snapshot_wavelength [simp]: "pose (snapshot_wavelength s w) = pose s"
  by (simp add: snapshot_wavelength_def pose_def)

lemma wavelength_snapshot [simp]:
  "wavelength (snapshot s) = wavelength s" "wavelength (snapshot_list s) = wavelength s"
  "wavelength (snapshot_wavelength s w) = wavelength s"
  by (simp_all add: snapshot_def snapshot_list_def snapshot_wavelength_def)

lemma elems_snapshot [simp]:
  "elems (param (snapshot s)) = pose s" "elems (param (snapshot_list s)) = pose s"
  "elems (param (snapshot_wavelength s w)) = pose s @ [10 ^ 10 * w]"
  by (simp_all add: snapshot_def snapshot_list_def snapshot_wavelength_def)

lemma data_snapshot [simp]:
  "data (snapshot s) = data s" "data (snapshot_list s) = data s"
  "data (snapshot_wavelength s w) = data s"
  by (simp_all add: snapshot_def snapshot_list_def snapshot_wavelength_def)

lemma chi2_snapshot [simp]:
  "chi2 ext (snapshot s) None = chi2 ext s (Some (pose s))"
  "chi2 ext (snapshot s) (Some p) = chi2 ext s (Some p)"
  "chi2 ext (snapshot_list s) None = chi2 ext s (Some (pose s))"
  "chi2 ext (snapshot_list s) (Some p) = chi2 ext s (Some p)"
  by (simp_all add: chi2_None) (simp_all add: snapshot_def snapshot_list_def)

lemma chi2_wavelength_snapshot [simp]:
  "chi2_wavelength ext (snapshot_wavelength s w) None =
     (snapshot_wavelength s w, snd (chi2_wavelength ext s (Some (pose s @ [10 ^ 10 * w]))))"
  "chi2_wavelength ext (snapshot_wavelength s w) (Some c) =
     (snapshot_wavelength s w, snd (chi2_wavelength ext s (Some c)))"
proof -
  show "chi2_wavelength ext (snapshot_wavelength s w) None =
     (snapshot_wavelength s w, snd (chi2_wavelength ext s (Some (pose s @ [10 ^ 10 * w]))))"
    by (simp add: chi2_wavelength_seven pose_def) (simp add: snapshot_wavelength_def)
  show "chi2_wavelength ext (snapshot_wavelength s w) (Some c) =
     (snapshot_wavelength s w, snd (chi2_wavelength ext s (Some c)))"
    by (subst chi2_wavelength_Some) (simp add: snapshot_wavelength_def)
qed

subsection \<open>The commit step\<close>

lemma nlt_irrefl [simp]: "\<not> nlt x x"
  by (cases x) simp_all

lemma six_entries: "length c = 6 \<Longrightarrow> [c ! 0, c ! 1, c ! 2, c ! 3, c ! 4, c ! 5] = c"
  by (simp add: list_eq_iff_nth_eq nth_Cons' numeral_eq_Suc less_Suc_eq)

lemma accept6_keep: "\<not> nlt new old \<Longrightarrow> accept6 s c old new = (s, Inr (Some old))"
  by (simp add: accept6_def)

lemma accept6_error:
  "snd (accept6 s c old new) = Inl e \<Longrightarrow> pose_wl (fst (accept6 s c old new)) = pose_wl s"
  by (auto simp: accept6_def Let_def split: if_splits sum.splits)

lemma accept6_result:
  "snd (accept6 s c old new) = Inr r \<Longrightarrow> r = Some (if nlt new old then new else old)"
  by (auto simp: accept6_def Let_def split: if_splits sum.splits)

lemma accept7_keep: "\<not> nlt new old \<Longrightarrow> accept7 s c old new = (s, Inr (Some old))"
  by (simp add: accept7_def)

lemma accept7_error:
  "snd (accept7 s c old new) = Inl e \<Longrightarrow> pose_wl (fst (accept7 s c old new)) = pose_wl s"
  by (auto simp: accept7_def Let_def split: if_splits sum.splits)

lemma accept7_result:
  "snd (accept7 s c old new) = Inr r \<Longrightarrow> r = Some (if nlt new old then new else old)"
  by (auto simp: accept7_def Let_def split: if_splits sum.splits)

lemma compare6_keep:
  assumes "chi2 ext s1 old_arg = Inr old" "chi2 ext s1 (Some c) = Inr new" "\<not> nlt new old"
  shows "compare6 ext s1 old_arg c = (s1, Inr (Some old))"
  using assms by (simp add: compare6_def accept6_keep)

lemma compare6_result:
  assumes "snd (compare6 ext s1 old_arg c) = Inr r"
  shows "\<exists>old new. chi2 ext s1 old_arg = Inr old \<and> chi2 ext s1 (Some c) = Inr new
           \<and> r = Some (if nlt new old then new else old)"
proof -
  from assms obtain old new where h: "chi2 ext s1 old_arg = Inr old"
    "chi2 ext s1 (Some c) = Inr new" "snd (accept6 s1 c old new) = Inr r"
    by (auto simp: compare6_def split: sum.splits)
  from accept6_result [OF h(3)] h(1,2) show ?thesis by blast
qed

lemma refine2_finish_compare6: "refine2_finish ext s1 (Some c) = compare6 ext s1 None c"
  by (simp add: refine2_finish_def compare6_def split: sum.splits)

lemma refine2_finish_unbound: "\<exists>e. snd (refine2_finish ext s1 None) = Inl e"
  by (simp add: refine2_finish_def split: sum.splits)

lemma refine2_finish_unbound_state: "fst (refine2_finish ext s1 None) = s1"
  by (simp add: refine2_finish_def split: sum.splits)

lemma refine2_wavelength_finish_keep:
  assumes "snd (chi2_wavelength ext s (Some (pose s @ [10 ^ 10 * w]))) = Inr old"
    "snd (chi2_wavelength ext s (Some c)) = Inr new" "\<not> nlt new old"
  shows "refine2_wavelength_finish ext (snapshot_wavelength s w) (Some c)
           = (snapshot_wavelength s w, Inr (Some old))"
  using assms by (simp add: refine2_wavelength_finish_def accept7_keep)

lemma refine2_wavelength_finish_result:
  assumes "snd (refine2_wavelength_finish ext (snapshot_wavelength s w) cand) = Inr r"
  shows "\<exists>c old new. cand = Some c
           \<and> snd (chi2_wavelength ext s (Some (pose s @ [10 ^ 10 * w]))) = Inr old
           \<and> snd (chi2_wavelength ext s (Some c)) = Inr new
           \<and> r = Some (if nlt new old then new else old)"
proof -
  from assms obtain c old new where h: "cand = Some c"
    "snd (chi2_wavelength ext s (Some (pose s @ [10 ^ 10 * w]))) = Inr old"
    "snd (chi2_wavelength ext s (Some c)) = Inr new"
    "snd (accept7 (snapshot_wavelength s w) c old new) = Inr r"
    by (auto simp: refine2_wavelength_finish_def split: sum.splits option.splits)
  from accept7_result [OF h(4)] h(1,2,3) show ?thesis by blast
qed

lemma chi2_wavelength_same_inputs:
  "data s' = data s \<Longrightarrow> dSpacing s' = dSpacing s \<Longrightarrow>
   snd (chi2_wavelength ext s' (Some p)) = snd (chi2_wavelength ext s (Some p))"
  by (simp add: chi2_wavelength_def residu2_wavelength_def residu1_wavelength_def calc_2th_def
      Let_def split: sum.splits prod.splits cong: if_cong option.case_cong)

subsection \<open>What a strategy leaves behind\<close>

text \<open>A property of the outcome of a call, by what the call does: raise or return.\<close>

lemma outcome_cases:
  assumes "\<And>e. snd p = Inl e \<Longrightarrow> A (fst p)" "\<And>r. snd p = Inr r \<Longrightarrow> B (fst p)"
  shows "case p of (s', Inl e) \<Rightarrow> A s' | (s', Inr r) \<Rightarrow> B s'"
  using assms by (cases p; cases "snd p") auto

text \<open>
  The value that the comparison keeps, the candidate's chi-squared if it is strictly below
  the snapshot's and the snapshot's otherwise, is never above the snapshot's, and it is at
  most the snapshot's unless that is \<^verbatim>\<open>nan\<close>.
\<close>

lemma decided_never_above:
  "\<not> nlt old (if nlt new old then new else old)"
  "old = NaN \<or> nle (if nlt new old then new else old) old"
  by (cases old; cases new; simp)+

text \<open>
  The commit block writes the candidate to \<^verbatim>\<open>self.param\<close> and to the pose fields when
  it returns the candidate's value, and nothing otherwise; chi-squared at the pose it leaves
  is the value it returns.
\<close>

lemma accept6_outcome:
  assumes "snd (accept6 s1 c old new) = Inr r"
  shows "pose (fst (accept6 s1 c old new)) = (if nlt new old then c else pose s1)"
    "elems (param (fst (accept6 s1 c old new))) = (if nlt new old then c else elems (param s1))"
    "wavelength (fst (accept6 s1 c old new)) = wavelength s1"
    "data (fst (accept6 s1 c old new)) = data s1"
    "dSpacing (fst (accept6 s1 c old new)) = dSpacing s1"
  using assms
  by (auto simp: accept6_def Let_def pose_def six_entries [simplified] split: if_splits sum.splits)

lemma compare6_returns:
  assumes "snd (compare6 ext s1 old_arg c) = Inr r"
    "chi2 ext s1 old_arg = chi2 ext s1 (Some (pose s1))" "elems (param s1) = pose s1"
  shows "\<exists>old new. chi2 ext s1 (Some (pose s1)) = Inr old \<and> chi2 ext s1 (Some c) = Inr new
           \<and> pose (fst (compare6 ext s1 old_arg c)) = (if nlt new old then c else pose s1)
           \<and> elems (param (fst (compare6 ext s1 old_arg c))) = pose (fst (compare6 ext s1 old_arg c))
           \<and> wavelength (fst (compare6 ext s1 old_arg c)) = wavelength s1
           \<and> chi2 ext (fst (compare6 ext s1 old_arg c)) (Some (pose (fst (compare6 ext s1 old_arg c))))
               = Inr (if nlt new old then new else old)"
proof -
  from assms(1,2) obtain old new where h: "chi2 ext s1 (Some (pose s1)) = Inr old"
    "chi2 ext s1 (Some c) = Inr new" "compare6 ext s1 old_arg c = accept6 s1 c old new"
    by (auto simp: compare6_def split: sum.splits)
  with assms(1) have r: "snd (accept6 s1 c old new) = Inr r"
    by simp
  note o = accept6_outcome [OF r]
  have "chi2 ext (fst (accept6 s1 c old new)) (Some p) = chi2 ext s1 (Some p)" for p
    by (rule chi2_same_inputs) (simp_all add: o)
  with h o assms(3) show ?thesis
    by auto
qed

lemma compare6_raises:
  "snd (compare6 ext s1 old_arg c) = Inl e \<Longrightarrow>
   pose_wl (fst (compare6 ext s1 old_arg c)) = pose_wl s1"
  by (auto simp: compare6_def accept6_error split: sum.splits)

text \<open>A strategy that raises leaves the pose fields and the wavelength as they were.\<close>

lemma refine1_raises:
  "snd (refine1 ext s) = Inl e \<Longrightarrow> pose_wl (fst (refine1 ext s)) = pose_wl s"
  using compare6_raises [of ext "snapshot s"]
  by (auto simp: refine1_def Let_def split: sum.splits)

lemma refine2_raises:
  "snd (refine2 ext maxiter fixed s) = Inl e \<Longrightarrow>
   pose_wl (fst (refine2 ext maxiter fixed s)) = pose_wl s"
proof (cases "refine2_candidate ext maxiter fixed (snapshot s)")
  case (Inl e')
  then show ?thesis
    by (simp add: refine2_def)
next
  case (Inr cand)
  then have e: "refine2 ext maxiter fixed s = refine2_finish ext (snapshot s) cand"
    by (simp add: refine2_def)
  assume a: "snd (refine2 ext maxiter fixed s) = Inl e"
  show ?thesis
  proof (cases cand)
    case None
    then show ?thesis
      by (simp add: e refine2_finish_unbound_state)
  next
    case (Some c)
    with a compare6_raises [of ext "snapshot s" None c e] show ?thesis
      by (simp add: e refine2_finish_compare6)
  qed
qed

lemma simplex_raises:
  "snd (simplex ext maxiter s) = Inl e \<Longrightarrow> pose_wl (fst (simplex ext maxiter s)) = pose_wl s"
  using compare6_raises [of ext "snapshot s"]
  by (auto simp: simplex_def Let_def split: sum.splits)

lemma anneal_raises:
  "snd (anneal ext maxiter s) = Inl e \<Longrightarrow> pose_wl (fst (anneal ext maxiter s)) = pose_wl s"
  using compare6_raises [of ext "snapshot_list s"]
  by (auto simp: anneal_def Let_def split: sum.splits)

lemma roca_raises: "snd (roca ext s) = Inl e \<Longrightarrow> fst (roca ext s) = s"
  by (auto simp: roca_def split: sum.splits if_splits)

lemma refine2_wavelength_raises:
  "snd (refine2_wavelength ext maxiter fixed s) = Inl e \<Longrightarrow>
   pose_wl (fst (refine2_wavelength ext maxiter fixed s)) = pose_wl s"
  by (auto simp: refine2_wavelength_def refine2_wavelength_finish_def Let_def accept7_error
      split: sum.splits option.splits)

text \<open>
  A strategy that returns has obtained a candidate and both values of chi-squared, and
  leaves the candidate or the snapshot in the pose fields and in \<^verbatim>\<open>self.param\<close>
  according to the comparison.
\<close>

lemma refine1_returns:
  assumes "snd (refine1 ext s) = Inr r"
  shows "\<exists>c old new. refine1_candidate ext (snapshot s) = Inr c
           \<and> chi2 ext s (Some (pose s)) = Inr old \<and> chi2 ext s (Some c) = Inr new
           \<and> pose (fst (refine1 ext s)) = (if nlt new old then c else pose s)
           \<and> elems (param (fst (refine1 ext s))) = pose (fst (refine1 ext s))
           \<and> wavelength (fst (refine1 ext s)) = wavelength s
           \<and> chi2 ext (fst (refine1 ext s)) (Some (pose (fst (refine1 ext s))))
               = Inr (if nlt new old then new else old)"
proof -
  from assms obtain c where c: "refine1_candidate ext (snapshot s) = Inr c"
    by (auto simp: refine1_def Let_def split: sum.splits)
  then have e: "refine1 ext s = compare6 ext (snapshot s) (Some (pose s)) c"
    by (simp add: refine1_def)
  from compare6_returns [of ext "snapshot s" "Some (pose s)" c r] assms c show ?thesis
    by (simp add: e split del: if_split cong: if_cong)
qed


lemma refine2_returns:
  assumes "snd (refine2 ext maxiter fixed s) = Inr r"
  shows "\<exists>c old new. refine2_candidate ext maxiter fixed (snapshot s) = Inr (Some c)
           \<and> chi2 ext s (Some (pose s)) = Inr old \<and> chi2 ext s (Some c) = Inr new
           \<and> pose (fst (refine2 ext maxiter fixed s)) = (if nlt new old then c else pose s)
           \<and> elems (param (fst (refine2 ext maxiter fixed s)))
               = pose (fst (refine2 ext maxiter fixed s))
           \<and> wavelength (fst (refine2 ext maxiter fixed s)) = wavelength s
           \<and> chi2 ext (fst (refine2 ext maxiter fixed s))
                 (Some (pose (fst (refine2 ext maxiter fixed s))))
               = Inr (if nlt new old then new else old)"
proof -
  from assms obtain cand where c: "refine2_candidate ext maxiter fixed (snapshot s) = Inr cand"
    by (auto simp: refine2_def Let_def split: sum.splits)
  with assms have f: "snd (refine2_finish ext (snapshot s) cand) = Inr r"
    by (simp add: refine2_def)
  with refine2_finish_unbound [of ext "snapshot s"] obtain c' where c': "cand = Some c'"
    by (cases cand) auto
  with c have e: "refine2 ext maxiter fixed s = compare6 ext (snapshot s) None c'"
    by (simp add: refine2_def refine2_finish_compare6)
  from compare6_returns [of ext "snapshot s" None c' r] assms c c' show ?thesis
    by (simp add: e split del: if_split cong: if_cong)
qed

lemma simplex_returns:
  assumes "snd (simplex ext maxiter s) = Inr r"
  shows "\<exists>c old new. simplex_candidate ext maxiter (snapshot s) = Inr c
           \<and> chi2 ext s (Some (pose s)) = Inr old \<and> chi2 ext s (Some c) = Inr new
           \<and> pose (fst (simplex ext maxiter s)) = (if nlt new old then c else pose s)
           \<and> elems (param (fst (simplex ext maxiter s))) = pose (fst (simplex ext maxiter s))
           \<and> wavelength (fst (simplex ext maxiter s)) = wavelength s
           \<and> chi2 ext (fst (simplex ext maxiter s)) (Some (pose (fst (simplex ext maxiter s))))
               = Inr (if nlt new old then new else old)"
proof -
  from assms obtain c where c: "simplex_candidate ext maxiter (snapshot s) = Inr c"
    by (auto simp: simplex_def Let_def split: sum.splits)
  then have e: "simplex ext maxiter s = compare6 ext (snapshot s) (Some (pose s)) c"
    by (simp add: simplex_def)
  from compare6_returns [of ext "snapshot s" "Some (pose s)" c r] assms c show ?thesis
    by (simp add: e split del: if_split cong: if_cong)
qed

lemma anneal_returns:
  assumes "snd (anneal ext maxiter s) = Inr r"
  shows "\<exists>c old new. anneal_candidate ext maxiter (snapshot_list s) = Inr c
           \<and> chi2 ext s (Some (pose s)) = Inr old \<and> chi2 ext s (Some c) = Inr new
           \<and> pose (fst (anneal ext maxiter s)) = (if nlt new old then c else pose s)
           \<and> elems (param (fst (anneal ext maxiter s))) = pose (fst (anneal ext maxiter s))
           \<and> wavelength (fst (anneal ext maxiter s)) = wavelength s
           \<and> chi2 ext (fst (anneal ext maxiter s)) (Some (pose (fst (anneal ext maxiter s))))
               = Inr (if nlt new old then new else old)"
proof -
  from assms obtain c where c: "anneal_candidate ext maxiter (snapshot_list s) = Inr c"
    by (auto simp: anneal_def Let_def split: sum.splits)
  then have e: "anneal ext maxiter s = compare6 ext (snapshot_list s) None c"
    by (simp add: anneal_def)
  from compare6_returns [of ext "snapshot_list s" None c r] assms c show ?thesis
    by (simp add: e split del: if_split cong: if_cong)
qed

text \<open>
  The candidate of \<^verbatim>\<open>roca\<close> is the pose with some entries replaced, so it has six
  entries; the unpacking of line 433 cannot fail.
\<close>

lemma roca_key_length:
  "roca_key ext word key i f p = Inr q \<Longrightarrow> length q = length p"
  by (auto simp: roca_key_def split: if_splits option.splits)

lemma roca_line_length:
  assumes "roca_line ext s line p = Inr q"
  shows "length q = length p"
proof (cases "length (py_split line) = 3")
  case False
  with assms show ?thesis
    by (simp add: roca_line_def Let_def)
next
  case True
  with assms obtain p1 p2 p3 p4 p5 where
    "roca_key ext (py_split line) ''cen1'' 1 (\<lambda>v. v * pixel1 s) p = Inr p1"
    "roca_key ext (py_split line) ''cen2'' 2 (\<lambda>v. v * pixel2 s) p1 = Inr p2"
    "roca_key ext (py_split line) ''dis'' 0 (\<lambda>v. v) p2 = Inr p3"
    "roca_key ext (py_split line) ''rot1'' 3 (\<lambda>v. v) p3 = Inr p4"
    "roca_key ext (py_split line) ''rot2'' 4 (\<lambda>v. v) p4 = Inr p5"
    "roca_key ext (py_split line) ''rot3'' 5 (\<lambda>v. v) p5 = Inr q"
    by (auto simp: roca_line_def Let_def and_then_def split: sum.splits)
  then show ?thesis
    by (auto dest!: roca_key_length)
qed

lemma roca_lines_length:
  "roca_lines ext s ls p = Inr q \<Longrightarrow> length q = length p"
proof (induction ls arbitrary: p)
  case Nil
  then show ?case by simp
next
  case (Cons line ls)
  then show ?case
    by (auto split: sum.splits dest!: roca_line_length)
qed

lemma roca_candidate_length: "roca_candidate ext s = Inr c \<Longrightarrow> length c = 6"
  by (auto simp: roca_candidate_def pose_def split: if_splits sum.splits dest!: roca_lines_length)

lemma roca_returns:
  assumes "elems (param s) = pose s" "snd (roca ext s) = Inr r"
  shows "\<exists>c old new. roca_candidate ext s = Inr c
           \<and> chi2 ext s (Some (pose s)) = Inr old \<and> chi2 ext s (Some c) = Inr new
           \<and> pose (fst (roca ext s)) = (if nlt new old then c else pose s)
           \<and> elems (param (fst (roca ext s))) = pose (fst (roca ext s))
           \<and> wavelength (fst (roca ext s)) = wavelength s
           \<and> chi2 ext (fst (roca ext s)) (Some (pose (fst (roca ext s))))
               = Inr (if nlt new old then new else old)"
proof -
  from assms obtain c old new where h: "roca_candidate ext s = Inr c"
    "chi2 ext s (Some (pose s)) = Inr old" "chi2 ext s (Some c) = Inr new"
    by (auto simp: roca_def chi2_None split: sum.splits)
  from roca_candidate_length [OF h(1)] have l: "[c ! 0, c ! 1, c ! 2, c ! 3, c ! 4, c ! 5] = c"
    by (rule six_entries)
  show ?thesis
  proof (cases "nlt new old")
    case False
    with h assms have "roca ext s = (s, Inr None)"
      by (simp add: roca_def chi2_None)
    with h assms False show ?thesis
      by simp
  next
    case True
    with h assms have e: "roca ext s
        = (s\<lparr>param := PyList c, dist_f := c ! 0, poni1 := c ! 1, poni2 := c ! 2, rot1 := c ! 3,
              rot2 := c ! 4, rot3 := c ! 5\<rparr>, Inr None)"
      by (simp add: roca_def chi2_None)
    have p: "pose (fst (roca ext s)) = c"
      using l by (simp add: e pose_def)
    have x: "chi2 ext (fst (roca ext s)) (Some c) = chi2 ext s (Some c)"
      by (rule chi2_same_inputs) (simp_all add: e)
    from h True p x show ?thesis
      by (simp add: e)
  qed
qed

text \<open>The same for the commit block of \<^verbatim>\<open>refine2_wavelength\<close> and for the method.\<close>

lemma accept7_outcome:
  assumes "snd (accept7 s1 c old new) = Inr r"
  shows "elems (param (fst (accept7 s1 c old new))) = (if nlt new old then c else elems (param s1))"
    "pose (fst (accept7 s1 c old new)) = (if nlt new old then take 6 c else pose s1)"
    "wavelength (fst (accept7 s1 c old new))
       = (if nlt new old then Some (1 / 10 ^ 10 * c ! 6) else wavelength s1)"
    "data (fst (accept7 s1 c old new)) = data s1"
    "dSpacing (fst (accept7 s1 c old new)) = dSpacing s1"
    "nlt new old \<Longrightarrow> length c = 7"
proof -
  have t: "take 6 c = [c ! 0, c ! 1, c ! 2, c ! 3, c ! 4, c ! 5]" if "length c = 7"
    using that by (simp add: list_eq_iff_nth_eq nth_Cons' numeral_eq_Suc less_Suc_eq)
  from assms show
    "elems (param (fst (accept7 s1 c old new))) = (if nlt new old then c else elems (param s1))"
    "wavelength (fst (accept7 s1 c old new))
       = (if nlt new old then Some (1 / 10 ^ 10 * c ! 6) else wavelength s1)"
    "data (fst (accept7 s1 c old new)) = data s1"
    "dSpacing (fst (accept7 s1 c old new)) = dSpacing s1"
    "nlt new old \<Longrightarrow> length c = 7"
    by (auto simp: accept7_def Let_def split: if_splits sum.splits)
  from assms show
    "pose (fst (accept7 s1 c old new)) = (if nlt new old then take 6 c else pose s1)"
    by (auto simp: accept7_def Let_def pose_def t split: if_splits sum.splits)
qed

lemma refine2_wavelength_returns:
  assumes "snd (refine2_wavelength ext maxiter fixed s) = Inr r"
  shows "\<exists>w c old new. wavelength s = Some w
           \<and> refine2_wavelength_candidate ext maxiter fixed (snapshot_wavelength s w) w
               = Inr (Some c)
           \<and> snd (chi2_wavelength ext s (Some (pose s @ [10 ^ 10 * w]))) = Inr old
           \<and> snd (chi2_wavelength ext s (Some c)) = Inr new
           \<and> elems (param (fst (refine2_wavelength ext maxiter fixed s)))
               = (if nlt new old then c else pose s @ [10 ^ 10 * w])
           \<and> pose (fst (refine2_wavelength ext maxiter fixed s))
               = (if nlt new old then take 6 c else pose s)
           \<and> wavelength (fst (refine2_wavelength ext maxiter fixed s))
               = (if nlt new old then Some (1 / 10 ^ 10 * c ! 6) else Some w)
           \<and> snd (chi2_wavelength ext (fst (refine2_wavelength ext maxiter fixed s)) None)
               = Inr (if nlt new old then new else old)"
proof -
  from assms obtain w where w: "wavelength s = Some w"
    by (auto simp: refine2_wavelength_def split: option.splits)
  let ?s1 = "snapshot_wavelength s w"
  from assms w obtain cand where
    cand: "refine2_wavelength_candidate ext maxiter fixed ?s1 w = Inr cand"
    by (auto simp: refine2_wavelength_def Let_def split: sum.splits)
  with assms w have f: "snd (refine2_wavelength_finish ext ?s1 cand) = Inr r"
    by (simp add: refine2_wavelength_def)
  then obtain c old new where h: "cand = Some c"
    "snd (chi2_wavelength ext s (Some (pose s @ [10 ^ 10 * w]))) = Inr old"
    "snd (chi2_wavelength ext s (Some c)) = Inr new"
    by (auto simp: refine2_wavelength_finish_def split: sum.splits option.splits)
  with w cand have e: "refine2_wavelength ext maxiter fixed s = accept7 ?s1 c old new"
    by (simp add: refine2_wavelength_def refine2_wavelength_finish_def)
  let ?s' = "fst (accept7 ?s1 c old new)"
  from assms e have r: "snd (accept7 ?s1 c old new) = Inr r"
    by simp
  note o = accept7_outcome [OF r]
  have len: "length (elems (param ?s')) \<noteq> 6"
    using o(6) by (simp add: o(1) pose_def)
  have "snd (chi2_wavelength ext ?s' None) = snd (chi2_wavelength ext ?s' (Some (elems (param ?s'))))"
    by (simp add: chi2_wavelength_seven [OF len])
  also have "\<dots> = snd (chi2_wavelength ext s (Some (elems (param ?s'))))"
    using chi2_wavelength_same_inputs [of ?s' ?s1 ext] by (simp add: o)
  finally have x: "snd (chi2_wavelength ext ?s' None) = Inr (if nlt new old then new else old)"
    using h by (simp add: o(1))
  from w cand h o x show ?thesis
    by (simp add: e split del: if_split cong: if_cong)
qed

subsection \<open>Binary64 rounding, evaluated\<close>

text \<open>
  The value of \<open>binary64 x\<close> for \<open>x\<close> between \<open>2\<^sup>5\<^sup>2 / 2\<^sup>q\<close> and \<open>2\<^sup>5\<^sup>3 / 2\<^sup>q\<close>: the integer
  \<open>m\<close> within less than one half of \<open>x \<sqdot> 2\<^sup>q\<close>, divided by \<open>2\<^sup>q\<close>.
\<close>

lemma round_half_even_nearest:
  assumes "\<bar>x - of_int m\<bar> < 1 / 2"
  shows "round_half_even x = m"
proof -
  from assms have "\<lfloor>x\<rfloor> = m \<or> \<lfloor>x\<rfloor> = m - 1"
    by linarith
  then show ?thesis
  proof
    assume f: "\<lfloor>x\<rfloor> = m"
    from assms have "x - of_int m < 1 / 2"
      by linarith
    with f show ?thesis
      by (simp add: round_half_even_def Let_def)
  next
    assume f: "\<lfloor>x\<rfloor> = m - 1"
    from assms have "- (1 / 2) < x - of_int m"
      by linarith
    then have "1 / 2 < x - of_int (m - 1)" "\<not> x - of_int (m - 1) < 1 / 2"
      by simp_all
    with f show ?thesis
      by (simp add: round_half_even_def Let_def)
  qed
qed

lemma binary64_eval:
  assumes "2 ^ 52 \<le> x * 2 ^ q" "x * 2 ^ q < 2 ^ 53" "\<bar>x * 2 ^ q - of_int m\<bar> < 1 / 2"
  shows "binary64 x = of_int m / 2 ^ q"
proof -
  have p: "(0 :: real) < 2 ^ q"
    by simp
  have "(0 :: real) < 2 ^ 52"
    by simp
  with assms(1) have "0 < x * 2 ^ q"
    by linarith
  with p have x: "0 < x"
    by (simp add: zero_less_mult_iff)
  have "2 powr (52 - real q) = 2 ^ 52 / 2 ^ q"
    by (simp add: powr_diff powr_realpow)
  also from assms(1) p have "\<dots> \<le> x"
    by (simp add: field_simps)
  finally have lo: "2 powr of_int (52 - int q) \<le> x"
    by simp
  have "x < 2 ^ 53 / 2 ^ q"
    using assms(2) p by (simp add: field_simps)
  also have "\<dots> = 2 powr (53 - real q)"
    by (simp add: powr_diff powr_realpow)
  finally have hi: "x < 2 powr (of_int (52 - int q) + 1)"
    by (simp add: algebra_simps)
  from x lo hi have "\<lfloor>log 2 x\<rfloor> = 52 - int q"
    by (subst floor_log_eq_powr_iff) simp_all
  then have "real_of_int \<lfloor>log 2 x\<rfloor> - 52 = - real q"
    by simp
  with x have u: "(2 :: real) powr (of_int \<lfloor>log 2 x\<rfloor> - 52) = 1 / 2 ^ q"
    by (simp add: powr_minus powr_realpow divide_inverse)
  from x show ?thesis
    by (simp add: binary64_def Let_def u round_half_even_nearest [OF assms(3)])
qed

lemma binary64_tenth: "binary64 (10 / 100) = 7205759403792794 / 2 ^ 56"
  using binary64_eval [of "10 / 100" 56 7205759403792794] by simp

lemma binary64_tenth_squared:
  "binary64 ((7205759403792794 / 2 ^ 56) ^ 2) = 5764607523034236 / 2 ^ 59"
  using binary64_eval [of "(7205759403792794 / 2 ^ 56) ^ 2" 59 5764607523034236]
  by (simp add: power2_eq_square)

lemma binary64_hundredth: "binary64 (1 / 100) = 5764607523034235 / 2 ^ 59"
  using binary64_eval [of "1 / 100" 59 5764607523034235] by simp


lemma binary64_0 [simp]: "binary64 0 = 0"
  by (simp add: binary64_def)

text \<open>
  The floats \<^verbatim>\<open>10 / 100.\<close>, its square, \<^verbatim>\<open>0.01\<close>, \<^verbatim>\<open>2.36e-10\<close> and \<^verbatim>\<open>1e-10\<close>, each
  as a 53-bit significand over a power of two.
\<close>

lemma binary64_square_of_tenth:
  "binary64 ((binary64 (10 / 100)) ^ 2) = 5764607523034236 / 2 ^ 59"
  by (simp only: binary64_tenth binary64_tenth_squared)

lemma binary64_wavelength: "binary64 (236 / 10 ^ 12) = 4564903894864840 / 2 ^ 84"
  using binary64_eval [of "236 / 10 ^ 12" 84 4564903894864840] by simp

lemma binary64_1em10: "binary64 (1 / 10 ^ 10) = 7737125245533627 / 2 ^ 86"
  using binary64_eval [of "1 / 10 ^ 10" 86 7737125245533627] by simp

text \<open>With the identity as rounding the rounded definitions are the exact ones.\<close>

lemma set_tolerance_rounded_exact: "set_tolerance_rounded (\<lambda>x. x) value s = set_tolerance value s"
  by (simp add: set_tolerance_rounded_def set_tolerance_def Let_def)

lemma wavelength_to_param_exact:
  "elems (param (snapshot_wavelength s w)) ! 6 = wavelength_to_param (\<lambda>x. x) w"
  by (simp add: wavelength_to_param_def pose_def)

lemma wavelength_of_param_exact:
  assumes "snd (accept7 s c old new) = Inr r" "nlt new old"
  shows "wavelength (fst (accept7 s c old new)) = Some (wavelength_of_param (\<lambda>x. x) (c ! 6))"
  using accept7_outcome(3) [OF assms(1)] assms(2) by (simp add: wavelength_of_param_def)

text \<open>
  The bounds of \<open>poni1\<close> on the branch for a value near zero, and the two rescalings of the
  wavelength \<^verbatim>\<open>2.36e-10\<close>, in binary64.
\<close>

lemma set_tolerance_rounded_poni1_zero:
  assumes "poni1 s = 0" "0 \<le> rnd ((rnd (value / 100)) ^ 2)"
  shows "poni1_min (fst (set_tolerance_rounded rnd value s)) = - rnd ((rnd (value / 100)) ^ 2)"
    "poni1_max (fst (set_tolerance_rounded rnd value s)) = rnd ((rnd (value / 100)) ^ 2)"
  using assms
  by (cases "wavelength s"; simp add: set_tolerance_rounded_def Let_def)+

lemma wavelength_to_param_236:
  "wavelength_to_param binary64 (4564903894864840 / 2 ^ 84) = 5314247560297186 / 2 ^ 51"
  using binary64_eval [of "10 ^ 10 * (4564903894864840 / 2 ^ 84)" 51 5314247560297186]
  by (simp add: wavelength_to_param_def)

lemma wavelength_of_param_236:
  "wavelength_of_param binary64 (5314247560297186 / 2 ^ 51) = 4564903894864841 / 2 ^ 84"
proof -
  have "wavelength_of_param binary64 c = binary64 (7737125245533627 / 2 ^ 86 * c)" for c
    by (simp only: wavelength_of_param_def binary64_1em10)
  with binary64_eval [of "7737125245533627 / 2 ^ 86 * (5314247560297186 / 2 ^ 51)" 84
      4564903894864841]
  show ?thesis
    by simp
qed

subsection \<open>The concrete instances, evaluated\<close>

lemma wf_instances: "wf_dataset one_point" "wf_dataset five_columns"
  by (simp_all add: wf_dataset_def one_point_def five_columns_def)

lemma chi2_one_point:
  assumes "data s = one_point" "dSpacing s = [1]" "wavelength s = Some 0"
    "tth E = (\<lambda>d1 d2 p. Num (p ! 1))"
  shows "chi2 E s (Some p) = Inr (Num (p ! 1 * p ! 1))"
  using assms
  by (simp add: chi2_def xyz_def column_def one_point_def residu2_def residu1_def
      calc_2th_def to_int32_def np_arcsin_quot_def tth_arr_def nsum_def nsq_def)

lemma chi2_wavelength_one_point:
  assumes "data s = one_point" "dSpacing s = [1]" "tth E = (\<lambda>d1 d2 p. Num (p ! 1))"
    "length p = 7" "p ! 6 = 0"
  shows "snd (chi2_wavelength E s (Some p)) = Inr (Num (p ! 1 * p ! 1))"
  using assms
  by (simp add: chi2_wavelength_def xyz_def column_def one_point_def residu2_wavelength_def
      residu1_wavelength_def astype_int32_def
      calc_2th_def to_int32_def np_arcsin_quot_def tth_arr_def nsum_def nsq_def)

lemma tth_instances [simp]:
  "tth idle_ext = (\<lambda>d1 d2 p. Num (p ! 1))" "tth cen1_ext = (\<lambda>d1 d2 p. Num (p ! 1))"
  "tth solving_ext = (\<lambda>d1 d2 p. Num (p ! 1))"
  by (simp_all add: idle_ext_def cen1_ext_def solving_ext_def)

lemma engine_at_fields [simp]:
  "data (engine_at x) = one_point" "dSpacing (engine_at x) = [1]"
  "wavelength (engine_at x) = Some 0" "pose (engine_at x) = [1, x, 0, 0, 0, 0]"
  "param (engine_at x) = PyList [1, x, 0, 0, 0, 0]"
  by (simp_all add: engine_at_def pose_def)

lemma chi2_engine_at [simp]:
  "tth E = (\<lambda>d1 d2 p. Num (p ! 1)) \<Longrightarrow>
   chi2 E (engine_at x) (Some p) = Inr (Num (p ! 1 * p ! 1))"
  by (simp add: chi2_one_point)

lemma chi2_wavelength_engine_at [simp]:
  "tth E = (\<lambda>d1 d2 p. Num (p ! 1)) \<Longrightarrow> length p = 7 \<Longrightarrow> p ! 6 = 0 \<Longrightarrow>
   snd (chi2_wavelength E (engine_at x) (Some p)) = Inr (Num (p ! 1 * p ! 1))"
  by (simp add: chi2_wavelength_one_point)

lemma xyz_one_point [simp]: "xyz one_point = Inr ([0], [0], [0])"
  by (simp add: xyz_def column_def one_point_def)

lemma idle_candidates:
  "refine1_candidate idle_ext (snapshot (engine_at x)) = Inr [1, x, 0, 0, 0, 0]"
  "refine2_candidate idle_ext m fx (snapshot (engine_at x)) = Inr (Some [1, x, 0, 0, 0, 0])"
  "refine2_wavelength_candidate idle_ext m fx (snapshot_wavelength (engine_at x) 0) 0
     = Inr (Some [1, x, 0, 0, 0, 0, 0])"
  "simplex_candidate idle_ext m (snapshot (engine_at x)) = Inr [1, x, 0, 0, 0, 0]"
  "anneal_candidate idle_ext m (snapshot_list (engine_at x)) = Inr [1, x, 0, 0, 0, 0]"
  "roca_candidate idle_ext (engine_at x) = Inr [1, x, 0, 0, 0, 0]"
  by (simp_all add: refine1_candidate_def refine2_candidate_def refine2_wavelength_candidate_def
      simplex_candidate_def anneal_candidate_def roca_candidate_def idle_ext_def one_point_def
      engine_at_def pose_def Let_def
      snapshot_def snapshot_list_def snapshot_wavelength_def xyz_def column_def)

lemma solving_candidates:
  "refine1_candidate solving_ext (snapshot (engine_at x)) = Inr [1, 0, 0, 0, 0, 0]"
  "refine2_candidate solving_ext m fx (snapshot (engine_at x)) = Inr (Some [1, 0, 0, 0, 0, 0])"
  "refine2_wavelength_candidate solving_ext m fx (snapshot_wavelength (engine_at x) 0) 0
     = Inr (Some [1, 0, 0, 0, 0, 0, 0])"
  "simplex_candidate solving_ext m (snapshot (engine_at x)) = Inr [1, 0, 0, 0, 0, 0]"
  "anneal_candidate solving_ext m (snapshot_list (engine_at x)) = Inr [1, 0, 0, 0, 0, 0]"
  "roca_candidate solving_ext (engine_at x) = Inr [1, x, 0, 0, 0, 0]"
  by (simp_all add: refine1_candidate_def refine2_candidate_def refine2_wavelength_candidate_def
      simplex_candidate_def anneal_candidate_def roca_candidate_def solving_ext_def idle_ext_def
      one_point_def engine_at_def pose_def Let_def
      snapshot_def snapshot_list_def snapshot_wavelength_def xyz_def column_def)

lemma cen1_candidate [simp]: "roca_candidate cen1_ext (engine_at x) = Inr [1, 1, 0, 0, 0, 0]"
  by (simp add: roca_candidate_def cen1_ext_def idle_ext_def engine_at_def one_point_def
       roca_line_def py_split_def is_space_def roca_key_def and_then_def pose_def)

lemma accept6_solving:
  "elems (param s) = [1, 2, 0, 0, 0, 0] \<Longrightarrow>
   snd (accept6 s [1, 0, 0, 0, 0, 0] (Num 4) (Num 0)) = Inr (Some (Num 0))"
  by (simp add: accept6_def maxdelta_index_def argmax_def Let_def)

lemma accept7_solving:
  "elems (param s) = [1, 2, 0, 0, 0, 0, 0] \<Longrightarrow>
   snd (accept7 s [1, 0, 0, 0, 0, 0, 0] (Num 4) (Num 0)) = Inr (Some (Num 0))"
  by (simp add: accept7_def maxdelta_index_def argmax_def Let_def)

lemma solving_results:
  "snd (refine1 solving_ext (engine_at 2)) = Inr (Some (Num 0))"
  "snd (refine2 solving_ext 1000000 [''wavelength''] (engine_at 2)) = Inr (Some (Num 0))"
  "snd (refine2_wavelength solving_ext 1000000 [''wavelength''] (engine_at 2)) = Inr (Some (Num 0))"
  "snd (simplex solving_ext 1000000 (engine_at 2)) = Inr (Some (Num 0))"
  "snd (anneal solving_ext 1000000 (engine_at 2)) = Inr (Some (Num 0))"
  "snd (roca solving_ext (engine_at 2)) = Inr None"
  by (simp_all add: refine1_def refine2_def refine2_wavelength_def simplex_def anneal_def roca_def
      solving_candidates compare6_def refine2_finish_def refine2_wavelength_finish_def
      accept6_solving accept7_solving chi2_None)

lemma chi2_nan_engine [simp]: "chi2 E nan_engine (Some p) = Inr NaN"
  by (simp add: nan_engine_def engine_at_def chi2_def xyz_def column_def one_point_def residu2_def
      residu1_def calc_2th_def to_int32_def np_arcsin_quot_def tth_arr_def nsum_def nsq_def)

lemma pose_nan_engine [simp]: "pose nan_engine = [1, 2, 0, 0, 0, 0]"
  by (simp add: nan_engine_def engine_at_def pose_def)

lemma refine1_nan_engine:
  "refine1 idle_ext nan_engine = (snapshot nan_engine, Inr (Some NaN))"
proof -
  have "refine1_candidate idle_ext (snapshot nan_engine) = Inr [1, 2, 0, 0, 0, 0]"
    by (simp add: refine1_candidate_def idle_ext_def nan_engine_def engine_at_def pose_def)
  then show ?thesis
    by (simp add: refine1_def compare6_keep)
qed

lemma roca_cen1_engine_at_2: "snd (roca cen1_ext (engine_at 2)) = Inr None"
  by (simp add: roca_def chi2_None)

subsection \<open>Commit only on improvement\<close>

text \<open>
  C1, as amended. \<^verbatim>\<open>refine1\<close>, \<^verbatim>\<open>refine2\<close>, \<^verbatim>\<open>refine2_wavelength\<close>, \<^verbatim>\<open>simplex\<close>
  and \<^verbatim>\<open>anneal\<close> store the current pose in \<^verbatim>\<open>self.param\<close>, obtain a candidate from
  their minimiser and evaluate chi-squared at both. Whenever such a call returns, the candidate
  has been committed to the pose fields and to \<^verbatim>\<open>self.param\<close> exactly when its
  chi-squared is strictly below that of the snapshot, a comparison that is false as soon as one
  of the two values is \<^verbatim>\<open>nan\<close>; otherwise the snapshot and the pose are kept. Whenever
  the call raises, the pose fields and the wavelength are what they were. Chi-squared of the
  state that the call leaves is the value kept by the comparison: it is never above
  chi-squared of the snapshot, and it is at most that value unless that value is \<^verbatim>\<open>nan\<close>.
  \<^verbatim>\<open>roca\<close> takes no snapshot and compares its candidate with \<^verbatim>\<open>self.param\<close> as it
  stands; the same holds for it when \<^verbatim>\<open>self.param\<close> holds the current pose at the call.
\<close>

theorem commit_only_on_improvement:
  "(case refine1 ext s of
      (s', Inl e) \<Rightarrow> pose_wl s' = pose_wl s
    | (s', Inr r) \<Rightarrow>
        (\<exists>c old new. refine1_candidate ext (snapshot s) = Inr c
           \<and> chi2 ext s (Some (pose s)) = Inr old \<and> chi2 ext s (Some c) = Inr new
           \<and> pose s' = (if nlt new old then c else pose s) \<and> elems (param s') = pose s'
           \<and> wavelength s' = wavelength s
           \<and> chi2 ext s' (Some (pose s')) = Inr (if nlt new old then new else old)
           \<and> \<not> nlt old (if nlt new old then new else old)
           \<and> (old = NaN \<or> nle (if nlt new old then new else old) old)))
 \<and> (case refine2 ext maxiter fixed s of
      (s', Inl e) \<Rightarrow> pose_wl s' = pose_wl s
    | (s', Inr r) \<Rightarrow>
        (\<exists>c old new. refine2_candidate ext maxiter fixed (snapshot s) = Inr (Some c)
           \<and> chi2 ext s (Some (pose s)) = Inr old \<and> chi2 ext s (Some c) = Inr new
           \<and> pose s' = (if nlt new old then c else pose s) \<and> elems (param s') = pose s'
           \<and> wavelength s' = wavelength s
           \<and> chi2 ext s' (Some (pose s')) = Inr (if nlt new old then new else old)
           \<and> \<not> nlt old (if nlt new old then new else old)
           \<and> (old = NaN \<or> nle (if nlt new old then new else old) old)))
 \<and> (case refine2_wavelength ext maxiter fixed s of
      (s', Inl e) \<Rightarrow> pose_wl s' = pose_wl s
    | (s', Inr r) \<Rightarrow>
        (\<exists>w c old new. wavelength s = Some w
           \<and> refine2_wavelength_candidate ext maxiter fixed (snapshot_wavelength s w) w
               = Inr (Some c)
           \<and> snd (chi2_wavelength ext s (Some (pose s @ [10 ^ 10 * w]))) = Inr old
           \<and> snd (chi2_wavelength ext s (Some c)) = Inr new
           \<and> elems (param s') = (if nlt new old then c else pose s @ [10 ^ 10 * w])
           \<and> pose s' = (if nlt new old then take 6 c else pose s)
           \<and> wavelength s' = (if nlt new old then Some (1 / 10 ^ 10 * c ! 6) else Some w)
           \<and> snd (chi2_wavelength ext s' None) = Inr (if nlt new old then new else old)
           \<and> \<not> nlt old (if nlt new old then new else old)
           \<and> (old = NaN \<or> nle (if nlt new old then new else old) old)))
 \<and> (case simplex ext maxiter s of
      (s', Inl e) \<Rightarrow> pose_wl s' = pose_wl s
    | (s', Inr r) \<Rightarrow>
        (\<exists>c old new. simplex_candidate ext maxiter (snapshot s) = Inr c
           \<and> chi2 ext s (Some (pose s)) = Inr old \<and> chi2 ext s (Some c) = Inr new
           \<and> pose s' = (if nlt new old then c else pose s) \<and> elems (param s') = pose s'
           \<and> wavelength s' = wavelength s
           \<and> chi2 ext s' (Some (pose s')) = Inr (if nlt new old then new else old)
           \<and> \<not> nlt old (if nlt new old then new else old)
           \<and> (old = NaN \<or> nle (if nlt new old then new else old) old)))
 \<and> (case anneal ext maxiter s of
      (s', Inl e) \<Rightarrow> pose_wl s' = pose_wl s
    | (s', Inr r) \<Rightarrow>
        (\<exists>c old new. anneal_candidate ext maxiter (snapshot_list s) = Inr c
           \<and> chi2 ext s (Some (pose s)) = Inr old \<and> chi2 ext s (Some c) = Inr new
           \<and> pose s' = (if nlt new old then c else pose s) \<and> elems (param s') = pose s'
           \<and> wavelength s' = wavelength s
           \<and> chi2 ext s' (Some (pose s')) = Inr (if nlt new old then new else old)
           \<and> \<not> nlt old (if nlt new old then new else old)
           \<and> (old = NaN \<or> nle (if nlt new old then new else old) old)))
 \<and> (elems (param s) = pose s \<longrightarrow>
      (case roca ext s of
         (s', Inl e) \<Rightarrow> s' = s
       | (s', Inr r) \<Rightarrow>
           (\<exists>c old new. roca_candidate ext s = Inr c
              \<and> chi2 ext s (Some (pose s)) = Inr old \<and> chi2 ext s (Some c) = Inr new
              \<and> pose s' = (if nlt new old then c else pose s) \<and> elems (param s') = pose s'
              \<and> wavelength s' = wavelength s
              \<and> chi2 ext s' (Some (pose s')) = Inr (if nlt new old then new else old)
              \<and> \<not> nlt old (if nlt new old then new else old)
              \<and> (old = NaN \<or> nle (if nlt new old then new else old) old))))"
proof (intro conjI impI outcome_cases)
  note [split del] = if_split
  note [cong] = if_cong
  show "\<And>e. snd (refine1 ext s) = Inl e \<Longrightarrow> pose_wl (fst (refine1 ext s)) = pose_wl s"
    "\<And>e. snd (refine2 ext maxiter fixed s) = Inl e \<Longrightarrow>
       pose_wl (fst (refine2 ext maxiter fixed s)) = pose_wl s"
    "\<And>e. snd (refine2_wavelength ext maxiter fixed s) = Inl e \<Longrightarrow>
       pose_wl (fst (refine2_wavelength ext maxiter fixed s)) = pose_wl s"
    "\<And>e. snd (simplex ext maxiter s) = Inl e \<Longrightarrow>
       pose_wl (fst (simplex ext maxiter s)) = pose_wl s"
    "\<And>e. snd (anneal ext maxiter s) = Inl e \<Longrightarrow>
       pose_wl (fst (anneal ext maxiter s)) = pose_wl s"
    "\<And>e. snd (roca ext s) = Inl e \<Longrightarrow> fst (roca ext s) = s"
    by (fact refine1_raises refine2_raises refine2_wavelength_raises simplex_raises anneal_raises
        roca_raises)+
next
  fix r
  assume "snd (refine1 ext s) = Inr r"
  from refine1_returns [OF this] decided_never_above
  show "\<exists>c old new. refine1_candidate ext (snapshot s) = Inr c
           \<and> chi2 ext s (Some (pose s)) = Inr old \<and> chi2 ext s (Some c) = Inr new
           \<and> pose (fst (refine1 ext s)) = (if nlt new old then c else pose s)
           \<and> elems (param (fst (refine1 ext s))) = pose (fst (refine1 ext s))
           \<and> wavelength (fst (refine1 ext s)) = wavelength s
           \<and> chi2 ext (fst (refine1 ext s)) (Some (pose (fst (refine1 ext s))))
               = Inr (if nlt new old then new else old)
           \<and> \<not> nlt old (if nlt new old then new else old)
           \<and> (old = NaN \<or> nle (if nlt new old then new else old) old)"
    by simp
next
  fix r
  assume "snd (refine2 ext maxiter fixed s) = Inr r"
  from refine2_returns [OF this] decided_never_above
  show "\<exists>c old new. refine2_candidate ext maxiter fixed (snapshot s) = Inr (Some c)
           \<and> chi2 ext s (Some (pose s)) = Inr old \<and> chi2 ext s (Some c) = Inr new
           \<and> pose (fst (refine2 ext maxiter fixed s)) = (if nlt new old then c else pose s)
           \<and> elems (param (fst (refine2 ext maxiter fixed s)))
               = pose (fst (refine2 ext maxiter fixed s))
           \<and> wavelength (fst (refine2 ext maxiter fixed s)) = wavelength s
           \<and> chi2 ext (fst (refine2 ext maxiter fixed s))
                 (Some (pose (fst (refine2 ext maxiter fixed s))))
               = Inr (if nlt new old then new else old)
           \<and> \<not> nlt old (if nlt new old then new else old)
           \<and> (old = NaN \<or> nle (if nlt new old then new else old) old)"
    by simp
next
  fix r
  assume "snd (refine2_wavelength ext maxiter fixed s) = Inr r"
  from refine2_wavelength_returns [OF this] decided_never_above
  show "\<exists>w c old new. wavelength s = Some w
           \<and> refine2_wavelength_candidate ext maxiter fixed (snapshot_wavelength s w) w
               = Inr (Some c)
           \<and> snd (chi2_wavelength ext s (Some (pose s @ [10 ^ 10 * w]))) = Inr old
           \<and> snd (chi2_wavelength ext s (Some c)) = Inr new
           \<and> elems (param (fst (refine2_wavelength ext maxiter fixed s)))
               = (if nlt new old then c else pose s @ [10 ^ 10 * w])
           \<and> pose (fst (refine2_wavelength ext maxiter fixed s))
               = (if nlt new old then take 6 c else pose s)
           \<and> wavelength (fst (refine2_wavelength ext maxiter fixed s))
               = (if nlt new old then Some (1 / 10 ^ 10 * c ! 6) else Some w)
           \<and> snd (chi2_wavelength ext (fst (refine2_wavelength ext maxiter fixed s)) None)
               = Inr (if nlt new old then new else old)
           \<and> \<not> nlt old (if nlt new old then new else old)
           \<and> (old = NaN \<or> nle (if nlt new old then new else old) old)"
    by simp
next
  fix r
  assume "snd (simplex ext maxiter s) = Inr r"
  from simplex_returns [OF this] decided_never_above
  show "\<exists>c old new. simplex_candidate ext maxiter (snapshot s) = Inr c
           \<and> chi2 ext s (Some (pose s)) = Inr old \<and> chi2 ext s (Some c) = Inr new
           \<and> pose (fst (simplex ext maxiter s)) = (if nlt new old then c else pose s)
           \<and> elems (param (fst (simplex ext maxiter s))) = pose (fst (simplex ext maxiter s))
           \<and> wavelength (fst (simplex ext maxiter s)) = wavelength s
           \<and> chi2 ext (fst (simplex ext maxiter s)) (Some (pose (fst (simplex ext maxiter s))))
               = Inr (if nlt new old then new else old)
           \<and> \<not> nlt old (if nlt new old then new else old)
           \<and> (old = NaN \<or> nle (if nlt new old then new else old) old)"
    by simp
next
  fix r
  assume "snd (anneal ext maxiter s) = Inr r"
  from anneal_returns [OF this] decided_never_above
  show "\<exists>c old new. anneal_candidate ext maxiter (snapshot_list s) = Inr c
           \<and> chi2 ext s (Some (pose s)) = Inr old \<and> chi2 ext s (Some c) = Inr new
           \<and> pose (fst (anneal ext maxiter s)) = (if nlt new old then c else pose s)
           \<and> elems (param (fst (anneal ext maxiter s))) = pose (fst (anneal ext maxiter s))
           \<and> wavelength (fst (anneal ext maxiter s)) = wavelength s
           \<and> chi2 ext (fst (anneal ext maxiter s)) (Some (pose (fst (anneal ext maxiter s))))
               = Inr (if nlt new old then new else old)
           \<and> \<not> nlt old (if nlt new old then new else old)
           \<and> (old = NaN \<or> nle (if nlt new old then new else old) old)"
    by simp
next
  fix r
  assume "elems (param s) = pose s" "snd (roca ext s) = Inr r"
  from roca_returns [OF this] decided_never_above
  show "\<exists>c old new. roca_candidate ext s = Inr c
           \<and> chi2 ext s (Some (pose s)) = Inr old \<and> chi2 ext s (Some c) = Inr new
           \<and> pose (fst (roca ext s)) = (if nlt new old then c else pose s)
           \<and> elems (param (fst (roca ext s))) = pose (fst (roca ext s))
           \<and> wavelength (fst (roca ext s)) = wavelength s
           \<and> chi2 ext (fst (roca ext s)) (Some (pose (fst (roca ext s))))
               = Inr (if nlt new old then new else old)
           \<and> \<not> nlt old (if nlt new old then new else old)
           \<and> (old = NaN \<or> nle (if nlt new old then new else old) old)"
    by simp
qed

text \<open>
  The instance: the engine at \<open>poni1 = 2\<close>, chi-squared 4, \<^verbatim>\<open>self.param\<close> holding the
  pose. With minimisers that find the optimum the five strategies commit \<open>poni1 = 0\<close>,
  chi-squared 0; with a tool that reports \<^verbatim>\<open>cen1 1 px\<close>, \<^verbatim>\<open>roca\<close> commits
  \<open>poni1 = 1\<close>, chi-squared 1.
\<close>

theorem commit_only_on_improvement_witness:
  "chi2 solving_ext (engine_at 2) (Some (pose (engine_at 2))) = Inr (Num 4)
 \<and> pose (fst (refine1 solving_ext (engine_at 2))) = [1, 0, 0, 0, 0, 0]
 \<and> elems (param (fst (refine1 solving_ext (engine_at 2)))) = [1, 0, 0, 0, 0, 0]
 \<and> chi2 solving_ext (fst (refine1 solving_ext (engine_at 2))) (Some [1, 0, 0, 0, 0, 0])
     = Inr (Num 0)
 \<and> pose (fst (refine2 solving_ext 1000000 [''wavelength''] (engine_at 2))) = [1, 0, 0, 0, 0, 0]
 \<and> chi2 solving_ext (fst (refine2 solving_ext 1000000 [''wavelength''] (engine_at 2)))
       (Some [1, 0, 0, 0, 0, 0]) = Inr (Num 0)
 \<and> elems (param (fst (refine2_wavelength solving_ext 1000000 [''wavelength''] (engine_at 2))))
     = [1, 0, 0, 0, 0, 0, 0]
 \<and> pose (fst (refine2_wavelength solving_ext 1000000 [''wavelength''] (engine_at 2)))
     = [1, 0, 0, 0, 0, 0]
 \<and> wavelength (fst (refine2_wavelength solving_ext 1000000 [''wavelength''] (engine_at 2)))
     = Some 0
 \<and> snd (chi2_wavelength solving_ext
          (fst (refine2_wavelength solving_ext 1000000 [''wavelength''] (engine_at 2))) None)
     = Inr (Num 0)
 \<and> pose (fst (simplex solving_ext 1000000 (engine_at 2))) = [1, 0, 0, 0, 0, 0]
 \<and> chi2 solving_ext (fst (simplex solving_ext 1000000 (engine_at 2))) (Some [1, 0, 0, 0, 0, 0])
     = Inr (Num 0)
 \<and> pose (fst (anneal solving_ext 1000000 (engine_at 2))) = [1, 0, 0, 0, 0, 0]
 \<and> chi2 solving_ext (fst (anneal solving_ext 1000000 (engine_at 2))) (Some [1, 0, 0, 0, 0, 0])
     = Inr (Num 0)
 \<and> nle (Num 0) (Num 4)
 \<and> elems (param (engine_at 2)) = pose (engine_at 2)
 \<and> chi2 cen1_ext (engine_at 2) (Some (pose (engine_at 2))) = Inr (Num 4)
 \<and> pose (fst (roca cen1_ext (engine_at 2))) = [1, 1, 0, 0, 0, 0]
 \<and> elems (param (fst (roca cen1_ext (engine_at 2)))) = [1, 1, 0, 0, 0, 0]
 \<and> chi2 cen1_ext (fst (roca cen1_ext (engine_at 2))) (Some [1, 1, 0, 0, 0, 0]) = Inr (Num 1)
 \<and> nle (Num 1) (Num 4)"
  using commit_only_on_improvement [where ext = solving_ext and s = "engine_at 2"
      and maxiter = 1000000 and fixed = "[''wavelength'']"]
    commit_only_on_improvement [where ext = cen1_ext and s = "engine_at 2"
      and maxiter = 1000000 and fixed = "[''wavelength'']"]
    solving_results roca_cen1_engine_at_2
  by (auto simp add: case_prod_beta solving_candidates)

text \<open>
  The claim as first stated has chi-squared after the call at most chi-squared before it, on
  every dataset. On the engine whose d-spacing table is in metres every chi-squared is
  \<^verbatim>\<open>nan\<close>, whatever the forward model is (\<open>chi2_nan_engine\<close>): \<^verbatim>\<open>refine1\<close> with a
  minimiser that returns its start vector keeps the snapshot, chi-squared is \<^verbatim>\<open>nan\<close>
  before and after the call, and \<^verbatim>\<open>nan <= nan\<close> is false.
\<close>

theorem refine1_on_nan_is_not_le:
  "chi2 idle_ext nan_engine (Some (pose nan_engine)) = Inr NaN
 \<and> refine1 idle_ext nan_engine = (snapshot nan_engine, Inr (Some NaN))
 \<and> pose (fst (refine1 idle_ext nan_engine)) = pose nan_engine
 \<and> chi2 idle_ext (fst (refine1 idle_ext nan_engine))
       (Some (pose (fst (refine1 idle_ext nan_engine)))) = Inr NaN
 \<and> \<not> nle NaN NaN"
  by (simp add: refine1_nan_engine)

subsection \<open>A candidate that does not improve\<close>

text \<open>
  C2, as amended. For \<^verbatim>\<open>refine1\<close>, \<^verbatim>\<open>refine2\<close>, \<^verbatim>\<open>refine2_wavelength\<close>,
  \<^verbatim>\<open>simplex\<close> and \<^verbatim>\<open>anneal\<close>: when the minimiser returns a candidate whose chi-squared
  is not strictly below that of the snapshot of the pose, the call leaves the six pose
  fields and the wavelength as they were and returns the chi-squared of the snapshot.
  \<^verbatim>\<open>roca\<close>, called when \<^verbatim>\<open>self.param\<close> holds the current pose, leaves the whole state
  as it was in that case, and returns \<^verbatim>\<open>None\<close>.
\<close>

theorem non_improving_candidate_keeps_pose:
  "(refine1_candidate ext (snapshot s) = Inr c \<and> chi2 ext s (Some (pose s)) = Inr old
      \<and> chi2 ext s (Some c) = Inr new \<and> \<not> nlt new old
     \<longrightarrow> pose_wl (fst (refine1 ext s)) = pose_wl s \<and> snd (refine1 ext s) = Inr (Some old))
 \<and> (refine2_candidate ext maxiter fixed (snapshot s) = Inr (Some c)
      \<and> chi2 ext s (Some (pose s)) = Inr old
      \<and> chi2 ext s (Some c) = Inr new \<and> \<not> nlt new old
     \<longrightarrow> pose_wl (fst (refine2 ext maxiter fixed s)) = pose_wl s
         \<and> snd (refine2 ext maxiter fixed s) = Inr (Some old))
 \<and> (wavelength s = Some w
      \<and> refine2_wavelength_candidate ext maxiter fixed (snapshot_wavelength s w) w = Inr (Some c7)
      \<and> snd (chi2_wavelength ext s (Some (pose s @ [10 ^ 10 * w]))) = Inr old
      \<and> snd (chi2_wavelength ext s (Some c7)) = Inr new \<and> \<not> nlt new old
     \<longrightarrow> pose_wl (fst (refine2_wavelength ext maxiter fixed s)) = pose_wl s
         \<and> snd (refine2_wavelength ext maxiter fixed s) = Inr (Some old))
 \<and> (simplex_candidate ext maxiter (snapshot s) = Inr c \<and> chi2 ext s (Some (pose s)) = Inr old
      \<and> chi2 ext s (Some c) = Inr new \<and> \<not> nlt new old
     \<longrightarrow> pose_wl (fst (simplex ext maxiter s)) = pose_wl s
         \<and> snd (simplex ext maxiter s) = Inr (Some old))
 \<and> (anneal_candidate ext maxiter (snapshot_list s) = Inr c
      \<and> chi2 ext s (Some (pose s)) = Inr old
      \<and> chi2 ext s (Some c) = Inr new \<and> \<not> nlt new old
     \<longrightarrow> pose_wl (fst (anneal ext maxiter s)) = pose_wl s
         \<and> snd (anneal ext maxiter s) = Inr (Some old))
 \<and> (elems (param s) = pose s \<and> roca_candidate ext s = Inr c
      \<and> chi2 ext s (Some (pose s)) = Inr old
      \<and> chi2 ext s (Some c) = Inr new \<and> \<not> nlt new old
     \<longrightarrow> fst (roca ext s) = s \<and> snd (roca ext s) = Inr None)"
proof (intro conjI impI; elim conjE)
  assume "refine1_candidate ext (snapshot s) = Inr c" "chi2 ext s (Some (pose s)) = Inr old"
    "chi2 ext s (Some c) = Inr new" "\<not> nlt new old"
  then have "refine1 ext s = (snapshot s, Inr (Some old))"
    by (simp add: refine1_def compare6_keep)
  then show "pose_wl (fst (refine1 ext s)) = pose_wl s" "snd (refine1 ext s) = Inr (Some old)"
    by simp_all
next
  assume "refine2_candidate ext maxiter fixed (snapshot s) = Inr (Some c)"
    "chi2 ext s (Some (pose s)) = Inr old" "chi2 ext s (Some c) = Inr new" "\<not> nlt new old"
  then have "refine2 ext maxiter fixed s = (snapshot s, Inr (Some old))"
    by (simp add: refine2_def refine2_finish_compare6 compare6_keep)
  then show "pose_wl (fst (refine2 ext maxiter fixed s)) = pose_wl s"
    "snd (refine2 ext maxiter fixed s) = Inr (Some old)"
    by simp_all
next
  assume "wavelength s = Some w"
    "refine2_wavelength_candidate ext maxiter fixed (snapshot_wavelength s w) w = Inr (Some c7)"
    "snd (chi2_wavelength ext s (Some (pose s @ [10 ^ 10 * w]))) = Inr old"
    "snd (chi2_wavelength ext s (Some c7)) = Inr new" "\<not> nlt new old"
  then have "refine2_wavelength ext maxiter fixed s = (snapshot_wavelength s w, Inr (Some old))"
    by (simp add: refine2_wavelength_def refine2_wavelength_finish_keep)
  then show "pose_wl (fst (refine2_wavelength ext maxiter fixed s)) = pose_wl s"
    "snd (refine2_wavelength ext maxiter fixed s) = Inr (Some old)"
    by simp_all
next
  assume "simplex_candidate ext maxiter (snapshot s) = Inr c"
    "chi2 ext s (Some (pose s)) = Inr old" "chi2 ext s (Some c) = Inr new" "\<not> nlt new old"
  then have "simplex ext maxiter s = (snapshot s, Inr (Some old))"
    by (simp add: simplex_def compare6_keep)
  then show "pose_wl (fst (simplex ext maxiter s)) = pose_wl s"
    "snd (simplex ext maxiter s) = Inr (Some old)"
    by simp_all
next
  assume "anneal_candidate ext maxiter (snapshot_list s) = Inr c"
    "chi2 ext s (Some (pose s)) = Inr old" "chi2 ext s (Some c) = Inr new" "\<not> nlt new old"
  then have "anneal ext maxiter s = (snapshot_list s, Inr (Some old))"
    by (simp add: anneal_def compare6_keep)
  then show "pose_wl (fst (anneal ext maxiter s)) = pose_wl s"
    "snd (anneal ext maxiter s) = Inr (Some old)"
    by simp_all
next
  assume "elems (param s) = pose s" "roca_candidate ext s = Inr c"
    "chi2 ext s (Some (pose s)) = Inr old" "chi2 ext s (Some c) = Inr new" "\<not> nlt new old"
  then have "roca ext s = (s, Inr None)"
    by (simp add: roca_def chi2_None)
  then show "fst (roca ext s) = s" "snd (roca ext s) = Inr None"
    by simp_all
qed

text \<open>
  The instance: the engine at \<open>poni1 = 2\<close>, chi-squared 4, with minimisers that return
  their start vector and a tool that prints nothing. Every candidate ties with the
  snapshot; the five strategies return 4, \<^verbatim>\<open>roca\<close> returns \<^verbatim>\<open>None\<close>, and the pose and
  the wavelength stay.
\<close>

theorem non_improving_candidate_keeps_pose_witness:
  "(refine1_candidate idle_ext (snapshot (engine_at 2)) = Inr [1, 2, 0, 0, 0, 0]
    \<and> refine2_candidate idle_ext 1000000 [''wavelength''] (snapshot (engine_at 2))
        = Inr (Some [1, 2, 0, 0, 0, 0])
    \<and> wavelength (engine_at 2) = Some 0
    \<and> refine2_wavelength_candidate idle_ext 1000000 [''wavelength'']
          (snapshot_wavelength (engine_at 2) 0) 0 = Inr (Some [1, 2, 0, 0, 0, 0, 0])
    \<and> simplex_candidate idle_ext 1000000 (snapshot (engine_at 2)) = Inr [1, 2, 0, 0, 0, 0]
    \<and> anneal_candidate idle_ext 1000000 (snapshot_list (engine_at 2)) = Inr [1, 2, 0, 0, 0, 0]
    \<and> elems (param (engine_at 2)) = pose (engine_at 2)
    \<and> roca_candidate idle_ext (engine_at 2) = Inr [1, 2, 0, 0, 0, 0]
    \<and> chi2 idle_ext (engine_at 2) (Some (pose (engine_at 2))) = Inr (Num 4)
    \<and> chi2 idle_ext (engine_at 2) (Some [1, 2, 0, 0, 0, 0]) = Inr (Num 4)
    \<and> snd (chi2_wavelength idle_ext (engine_at 2) (Some (pose (engine_at 2) @ [10 ^ 10 * 0])))
        = Inr (Num 4)
    \<and> snd (chi2_wavelength idle_ext (engine_at 2) (Some [1, 2, 0, 0, 0, 0, 0])) = Inr (Num 4)
    \<and> \<not> nlt (Num 4) (Num 4))
 \<and> pose_wl (fst (refine1 idle_ext (engine_at 2))) = pose_wl (engine_at 2)
 \<and> snd (refine1 idle_ext (engine_at 2)) = Inr (Some (Num 4))
 \<and> pose_wl (fst (refine2 idle_ext 1000000 [''wavelength''] (engine_at 2))) = pose_wl (engine_at 2)
 \<and> snd (refine2 idle_ext 1000000 [''wavelength''] (engine_at 2)) = Inr (Some (Num 4))
 \<and> pose_wl (fst (refine2_wavelength idle_ext 1000000 [''wavelength''] (engine_at 2)))
      = pose_wl (engine_at 2)
 \<and> snd (refine2_wavelength idle_ext 1000000 [''wavelength''] (engine_at 2)) = Inr (Some (Num 4))
 \<and> pose_wl (fst (simplex idle_ext 1000000 (engine_at 2))) = pose_wl (engine_at 2)
 \<and> snd (simplex idle_ext 1000000 (engine_at 2)) = Inr (Some (Num 4))
 \<and> pose_wl (fst (anneal idle_ext 1000000 (engine_at 2))) = pose_wl (engine_at 2)
 \<and> snd (anneal idle_ext 1000000 (engine_at 2)) = Inr (Some (Num 4))
 \<and> fst (roca idle_ext (engine_at 2)) = engine_at 2
 \<and> snd (roca idle_ext (engine_at 2)) = Inr None"
proof -
  have h: "refine1_candidate idle_ext (snapshot (engine_at 2)) = Inr [1, 2, 0, 0, 0, 0]
    \<and> refine2_candidate idle_ext 1000000 [''wavelength''] (snapshot (engine_at 2))
        = Inr (Some [1, 2, 0, 0, 0, 0])
    \<and> wavelength (engine_at 2) = Some 0
    \<and> refine2_wavelength_candidate idle_ext 1000000 [''wavelength'']
          (snapshot_wavelength (engine_at 2) 0) 0 = Inr (Some [1, 2, 0, 0, 0, 0, 0])
    \<and> simplex_candidate idle_ext 1000000 (snapshot (engine_at 2)) = Inr [1, 2, 0, 0, 0, 0]
    \<and> anneal_candidate idle_ext 1000000 (snapshot_list (engine_at 2)) = Inr [1, 2, 0, 0, 0, 0]
    \<and> elems (param (engine_at 2)) = pose (engine_at 2)
    \<and> roca_candidate idle_ext (engine_at 2) = Inr [1, 2, 0, 0, 0, 0]
    \<and> chi2 idle_ext (engine_at 2) (Some (pose (engine_at 2))) = Inr (Num 4)
    \<and> chi2 idle_ext (engine_at 2) (Some [1, 2, 0, 0, 0, 0]) = Inr (Num 4)
    \<and> snd (chi2_wavelength idle_ext (engine_at 2) (Some (pose (engine_at 2) @ [10 ^ 10 * 0])))
        = Inr (Num 4)
    \<and> snd (chi2_wavelength idle_ext (engine_at 2) (Some [1, 2, 0, 0, 0, 0, 0])) = Inr (Num 4)
    \<and> \<not> nlt (Num 4) (Num 4)"
    by (simp add: idle_candidates)
  from h non_improving_candidate_keeps_pose [of idle_ext "engine_at 2" "[1, 2, 0, 0, 0, 0]"
      "Num 4" "Num 4" 1000000 "[''wavelength'']" 0 "[1, 2, 0, 0, 0, 0, 0]"]
  show ?thesis by simp
qed

text \<open>
  The claim as first stated, that every strategy returns the chi-squared of the snapshot when
  the candidate does not improve, fails for \<^verbatim>\<open>roca\<close>: on the engine at \<open>poni1 = 0\<close>
  (chi-squared 0, \<^verbatim>\<open>self.param\<close> holding the pose) the tool's candidate has chi-squared
  1, nothing is committed, and the call returns \<^verbatim>\<open>None\<close>, not 0.
\<close>

theorem roca_tie_returns_none:
  "elems (param (engine_at 0)) = pose (engine_at 0)
 \<and> roca_candidate cen1_ext (engine_at 0) = Inr [1, 1, 0, 0, 0, 0]
 \<and> chi2 cen1_ext (engine_at 0) (Some (pose (engine_at 0))) = Inr (Num 0)
 \<and> chi2 cen1_ext (engine_at 0) (Some [1, 1, 0, 0, 0, 0]) = Inr (Num 1)
 \<and> \<not> nlt (Num 1) (Num 0)
 \<and> snd (roca cen1_ext (engine_at 0)) = Inr None
 \<and> snd (roca cen1_ext (engine_at 0)) \<noteq> Inr (Some (Num 0))"
  by (simp add: roca_def chi2_None)

subsection \<open>The value returned\<close>

text \<open>
  C3, as amended. Whenever \<^verbatim>\<open>refine1\<close>, \<^verbatim>\<open>refine2\<close>, \<^verbatim>\<open>refine2_wavelength\<close>,
  \<^verbatim>\<open>simplex\<close> or \<^verbatim>\<open>anneal\<close> returns, the minimiser gave a candidate, both chi-squared
  values were computed, and the value returned is the candidate's chi-squared if it is
  strictly below the snapshot's, and the snapshot's otherwise. Whenever \<^verbatim>\<open>roca\<close> returns,
  it returns \<^verbatim>\<open>None\<close>.
\<close>

theorem strategies_return_value:
  "(snd (refine1 ext s) = Inr r \<longrightarrow>
      (\<exists>c old new. refine1_candidate ext (snapshot s) = Inr c
         \<and> chi2 ext s (Some (pose s)) = Inr old \<and> chi2 ext s (Some c) = Inr new
         \<and> r = Some (if nlt new old then new else old)))
 \<and> (snd (refine2 ext maxiter fixed s) = Inr r \<longrightarrow>
      (\<exists>c old new. refine2_candidate ext maxiter fixed (snapshot s) = Inr (Some c)
         \<and> chi2 ext s (Some (pose s)) = Inr old \<and> chi2 ext s (Some c) = Inr new
         \<and> r = Some (if nlt new old then new else old)))
 \<and> (snd (refine2_wavelength ext maxiter fixed s) = Inr r \<longrightarrow>
      (\<exists>w c old new. wavelength s = Some w
         \<and> refine2_wavelength_candidate ext maxiter fixed (snapshot_wavelength s w) w
             = Inr (Some c)
         \<and> snd (chi2_wavelength ext s (Some (pose s @ [10 ^ 10 * w]))) = Inr old
         \<and> snd (chi2_wavelength ext s (Some c)) = Inr new
         \<and> r = Some (if nlt new old then new else old)))
 \<and> (snd (simplex ext maxiter s) = Inr r \<longrightarrow>
      (\<exists>c old new. simplex_candidate ext maxiter (snapshot s) = Inr c
         \<and> chi2 ext s (Some (pose s)) = Inr old \<and> chi2 ext s (Some c) = Inr new
         \<and> r = Some (if nlt new old then new else old)))
 \<and> (snd (anneal ext maxiter s) = Inr r \<longrightarrow>
      (\<exists>c old new. anneal_candidate ext maxiter (snapshot_list s) = Inr c
         \<and> chi2 ext s (Some (pose s)) = Inr old \<and> chi2 ext s (Some c) = Inr new
         \<and> r = Some (if nlt new old then new else old)))
 \<and> (snd (roca ext s) = Inr r \<longrightarrow> r = None)"
proof (intro conjI impI)
  assume a: "snd (refine1 ext s) = Inr r"
  then obtain c where c: "refine1_candidate ext (snapshot s) = Inr c"
    by (auto simp: refine1_def Let_def split: sum.splits)
  with a have "snd (compare6 ext (snapshot s) (Some (pose s)) c) = Inr r"
    by (simp add: refine1_def)
  from compare6_result [OF this] c
  show "\<exists>c old new. refine1_candidate ext (snapshot s) = Inr c
         \<and> chi2 ext s (Some (pose s)) = Inr old \<and> chi2 ext s (Some c) = Inr new
         \<and> r = Some (if nlt new old then new else old)"
    by auto
next
  assume a: "snd (refine2 ext maxiter fixed s) = Inr r"
  then obtain cand where c: "refine2_candidate ext maxiter fixed (snapshot s) = Inr cand"
    by (auto simp: refine2_def Let_def split: sum.splits)
  with a have f: "snd (refine2_finish ext (snapshot s) cand) = Inr r"
    by (simp add: refine2_def)
  with refine2_finish_unbound [of ext "snapshot s"] obtain c' where c': "cand = Some c'"
    by (cases cand) auto
  with f have "snd (compare6 ext (snapshot s) None c') = Inr r"
    by (simp add: refine2_finish_compare6)
  from compare6_result [OF this] c c'
  show "\<exists>c old new. refine2_candidate ext maxiter fixed (snapshot s) = Inr (Some c)
         \<and> chi2 ext s (Some (pose s)) = Inr old \<and> chi2 ext s (Some c) = Inr new
         \<and> r = Some (if nlt new old then new else old)"
    by auto
next
  assume a: "snd (refine2_wavelength ext maxiter fixed s) = Inr r"
  then obtain w where w: "wavelength s = Some w"
    by (auto simp: refine2_wavelength_def split: option.splits)
  with a obtain cand where
    c: "refine2_wavelength_candidate ext maxiter fixed (snapshot_wavelength s w) w = Inr cand"
    by (auto simp: refine2_wavelength_def Let_def split: sum.splits)
  with a w have "snd (refine2_wavelength_finish ext (snapshot_wavelength s w) cand) = Inr r"
    by (simp add: refine2_wavelength_def)
  from refine2_wavelength_finish_result [OF this] c w
  show "\<exists>w c old new. wavelength s = Some w
         \<and> refine2_wavelength_candidate ext maxiter fixed (snapshot_wavelength s w) w
             = Inr (Some c)
         \<and> snd (chi2_wavelength ext s (Some (pose s @ [10 ^ 10 * w]))) = Inr old
         \<and> snd (chi2_wavelength ext s (Some c)) = Inr new
         \<and> r = Some (if nlt new old then new else old)"
    by auto
next
  assume a: "snd (simplex ext maxiter s) = Inr r"
  then obtain c where c: "simplex_candidate ext maxiter (snapshot s) = Inr c"
    by (auto simp: simplex_def Let_def split: sum.splits)
  with a have "snd (compare6 ext (snapshot s) (Some (pose s)) c) = Inr r"
    by (simp add: simplex_def)
  from compare6_result [OF this] c
  show "\<exists>c old new. simplex_candidate ext maxiter (snapshot s) = Inr c
         \<and> chi2 ext s (Some (pose s)) = Inr old \<and> chi2 ext s (Some c) = Inr new
         \<and> r = Some (if nlt new old then new else old)"
    by auto
next
  assume a: "snd (anneal ext maxiter s) = Inr r"
  then obtain c where c: "anneal_candidate ext maxiter (snapshot_list s) = Inr c"
    by (auto simp: anneal_def Let_def split: sum.splits)
  with a have "snd (compare6 ext (snapshot_list s) None c) = Inr r"
    by (simp add: anneal_def)
  from compare6_result [OF this] c
  show "\<exists>c old new. anneal_candidate ext maxiter (snapshot_list s) = Inr c
         \<and> chi2 ext s (Some (pose s)) = Inr old \<and> chi2 ext s (Some c) = Inr new
         \<and> r = Some (if nlt new old then new else old)"
    by auto
next
  assume "snd (roca ext s) = Inr r"
  then show "r = None"
    by (auto simp: roca_def split: sum.splits if_splits)
qed

text \<open>
  The instance: the engine at \<open>poni1 = 2\<close>, chi-squared 4, with minimisers that find the
  optimum. The five strategies commit and return 0; \<^verbatim>\<open>roca\<close> returns \<^verbatim>\<open>None\<close>.
\<close>

theorem strategies_return_value_witness:
  "snd (refine1 solving_ext (engine_at 2)) = Inr (Some (Num 0))
 \<and> snd (refine2 solving_ext 1000000 [''wavelength''] (engine_at 2)) = Inr (Some (Num 0))
 \<and> snd (refine2_wavelength solving_ext 1000000 [''wavelength''] (engine_at 2)) = Inr (Some (Num 0))
 \<and> snd (simplex solving_ext 1000000 (engine_at 2)) = Inr (Some (Num 0))
 \<and> snd (anneal solving_ext 1000000 (engine_at 2)) = Inr (Some (Num 0))
 \<and> snd (roca solving_ext (engine_at 2)) = Inr None
 \<and> (\<exists>c old new. refine1_candidate solving_ext (snapshot (engine_at 2)) = Inr c
       \<and> chi2 solving_ext (engine_at 2) (Some (pose (engine_at 2))) = Inr old
       \<and> chi2 solving_ext (engine_at 2) (Some c) = Inr new
       \<and> Some (Num 0) = Some (if nlt new old then new else old))
 \<and> (\<exists>w c old new. wavelength (engine_at 2) = Some w
       \<and> refine2_wavelength_candidate solving_ext 1000000 [''wavelength'']
            (snapshot_wavelength (engine_at 2) w) w = Inr (Some c)
       \<and> snd (chi2_wavelength solving_ext (engine_at 2) (Some (pose (engine_at 2) @ [10 ^ 10 * w])))
           = Inr old
       \<and> snd (chi2_wavelength solving_ext (engine_at 2) (Some c)) = Inr new
       \<and> Some (Num 0) = Some (if nlt new old then new else old))"
  using strategies_return_value [of solving_ext "engine_at 2" "Some (Num 0)" 1000000
      "[''wavelength'']"]
    strategies_return_value [of solving_ext "engine_at 2" None 1000000 "[''wavelength'']"]
    solving_results
  by simp

text \<open>
  The claim as first stated, that \<^verbatim>\<open>roca\<close> too returns the better chi-squared, fails: on
  the engine at \<open>poni1 = 2\<close> (chi-squared 4) the tool's candidate has chi-squared 1 and is
  committed, and the call returns \<^verbatim>\<open>None\<close>, not 1.
\<close>

theorem roca_commit_returns_none:
  "roca_candidate cen1_ext (engine_at 2) = Inr [1, 1, 0, 0, 0, 0]
 \<and> chi2 cen1_ext (engine_at 2) (Some (elems (param (engine_at 2)))) = Inr (Num 4)
 \<and> chi2 cen1_ext (engine_at 2) (Some [1, 1, 0, 0, 0, 0]) = Inr (Num 1)
 \<and> nlt (Num 1) (Num 4)
 \<and> pose (fst (roca cen1_ext (engine_at 2))) = [1, 1, 0, 0, 0, 0]
 \<and> snd (roca cen1_ext (engine_at 2)) = Inr None
 \<and> snd (roca cen1_ext (engine_at 2)) \<noteq> Inr (Some (Num 1))"
  by (simp add: roca_def chi2_None pose_def)

subsection \<open>chi2_wavelength on a six-element snapshot\<close>

text \<open>
  C4. \<^verbatim>\<open>chi2_wavelength()\<close> is to extend a six-element \<^verbatim>\<open>self.param\<close> by the scaled
  wavelength and evaluate the objective. It does so on a Python list only. On the numpy
  array that \<^verbatim>\<open>refine1\<close>, \<^verbatim>\<open>refine2\<close> and \<^verbatim>\<open>simplex\<close> store, \<^verbatim>\<open>param.append\<close> raises
  AttributeError: in every state right after such a snapshot, and in particular after a
  complete call of \<^verbatim>\<open>refine1()\<close> on the engine at \<open>poni1 = 2\<close>.
\<close>

theorem chi2_wavelength_on_array_snapshot:
  "chi2_wavelength ext (snapshot s) None = (snapshot s, Inl AttributeError)
 \<and> param (fst (refine1 idle_ext (engine_at 2))) = NdArray [1, 2, 0, 0, 0, 0]
 \<and> snd (chi2_wavelength idle_ext (fst (refine1 idle_ext (engine_at 2))) None) = Inl AttributeError"
proof -
  have a: "chi2_wavelength ext (snapshot s) None = (snapshot s, Inl AttributeError)" for ext s
    by (simp add: chi2_wavelength_def pose_def) (simp add: snapshot_def)
  have "refine1 idle_ext (engine_at 2) = (snapshot (engine_at 2), Inr (Some (Num 4)))"
    by (simp add: refine1_def idle_candidates compare6_keep)
  then show ?thesis using a [of ext s]
    by (simp add: snapshot_def chi2_wavelength_def)
qed

subsection \<open>The reference angle\<close>

text \<open>
  C5, as amended. For ring index 0, a d-spacing table whose first entry \<open>d\<close> is not zero and
  a wavelength \<open>w\<close> with \<open>w / (2.0e-10 \<sqdot> d)\<close> in \<open>[-1, 1]\<close>, \<^verbatim>\<open>calc_2th\<close> returns
  \<open>2 \<sqdot> arcsin (w / (2.0e-10 \<sqdot> d))\<close>: the table is in angstrom. With wavelength
  \<^verbatim>\<open>1e-10\<close> it is the table \<open>[3]\<close> that gives \<open>2 \<sqdot> arcsin (1 / 6)\<close>.
\<close>

theorem calc_2th_formula:
  assumes "dSpacing s = d # ds" "d \<noteq> 0"
    "- 1 \<le> w / (2 / 10 ^ 10 * d)" "w / (2 / 10 ^ 10 * d) \<le> 1"
  shows "calc_2th s [0] (Some w) = Inr [Num (2 * arcsin (w / (2 / 10 ^ 10 * d)))]"
  using assms
  by (simp add: calc_2th_def to_int32_def np_arcsin_quot_def Let_def)

theorem calc_2th_formula_witness:
  "dSpacing ((engine_at 0)\<lparr>dSpacing := [3]\<rparr>) = [3]
 \<and> (3 :: real) \<noteq> 0
 \<and> - 1 \<le> (1 / 10 ^ 10) / (2 / 10 ^ 10 * (3 :: real))
 \<and> (1 / 10 ^ 10) / (2 / 10 ^ 10 * (3 :: real)) \<le> 1
 \<and> calc_2th ((engine_at 0)\<lparr>dSpacing := [3]\<rparr>) [0] (Some (1 / 10 ^ 10))
     = Inr [Num (2 * arcsin (1 / 6))]"
  using calc_2th_formula [of "(engine_at 0)\<lparr>dSpacing := [3]\<rparr>" 3 "[]" "1 / 10 ^ 10"]
  by simp

text \<open>
  The claim as first stated takes the table \<open>[3e-10]\<close>, in metres. The quotient is then
  \<open>10\<^sup>1\<^sup>0 / 6\<close>, outside the domain of the arcsine, and the result is \<^verbatim>\<open>nan\<close>.
\<close>

theorem calc_2th_metre_table_is_nan:
  "calc_2th ((engine_at 0)\<lparr>dSpacing := [3 / 10 ^ 10]\<rparr>) [0] (Some (1 / 10 ^ 10)) = Inr [NaN]
 \<and> calc_2th ((engine_at 0)\<lparr>dSpacing := [3 / 10 ^ 10]\<rparr>) [0] (Some (1 / 10 ^ 10))
     \<noteq> Inr [Num (2 * arcsin (1 / 6))]
 \<and> (1 / 10 ^ 10) / (2 / 10 ^ 10 * (3 / 10 ^ 10)) = (10 ^ 10 / 6 :: real)"
  by (simp add: calc_2th_def to_int32_def np_arcsin_quot_def Let_def)

subsection \<open>The wavelength under a minimiser that does nothing\<close>

text \<open>
  C6, as amended. With a minimiser that returns its start vector, \<^verbatim>\<open>refine2_wavelength\<close>
  leaves the wavelength field at its starting value \<open>l0\<close> and the six pose fields as they
  were, whatever the dataset, the bounds and the forward model are: the candidate ties with
  the snapshot, nothing is committed, and the only assignment of the call is the snapshot
  stored in \<^verbatim>\<open>self.param\<close>. The wavelength is not written, so the product
  \<^verbatim>\<open>1e-10 * (1e10 * l0)\<close> plays no part; on floats it differs from \<open>l0\<close> for some
  \<open>l0\<close>, the float \<^verbatim>\<open>2.36e-10\<close> among them.
\<close>

theorem refine2_wavelength_noop_keeps_wavelength:
  assumes "wavelength s = Some l0"
  shows "wavelength (fst (refine2_wavelength (ext\<lparr>sp_fmin_slsqp := (\<lambda>f x0 it bounds. Inr x0)\<rparr>)
                            maxiter fixed s)) = Some l0
       \<and> pose (fst (refine2_wavelength (ext\<lparr>sp_fmin_slsqp := (\<lambda>f x0 it bounds. Inr x0)\<rparr>)
                            maxiter fixed s)) = pose s
       \<and> fst (refine2_wavelength (ext\<lparr>sp_fmin_slsqp := (\<lambda>f x0 it bounds. Inr x0)\<rparr>)
                            maxiter fixed s) = snapshot_wavelength s l0
       \<and> wavelength_of_param binary64 (wavelength_to_param binary64 (binary64 (236 / 10 ^ 12)))
           \<noteq> binary64 (236 / 10 ^ 12)"
proof -
  let ?ext = "ext\<lparr>sp_fmin_slsqp := (\<lambda>f x0 it bounds. Inr x0)\<rparr>"
  let ?s1 = "snapshot_wavelength s l0"
  have cand: "refine2_wavelength_candidate ?ext maxiter fixed ?s1 l0
                = Inr (Some (pose s @ [10 ^ 10 * l0]))
      \<or> refine2_wavelength_candidate ?ext maxiter fixed ?s1 l0 = Inr None
      \<or> (\<exists>e. refine2_wavelength_candidate ?ext maxiter fixed ?s1 l0 = Inl e)"
    by (auto simp: refine2_wavelength_candidate_def Let_def split: sum.splits prod.splits)
  have fin: "fst (refine2_wavelength_finish ?ext ?s1 cand) = ?s1"
    if "cand = None \<or> cand = Some (pose s @ [10 ^ 10 * l0])" for cand
    using that
    by (auto simp: refine2_wavelength_finish_def accept7_keep split: sum.splits option.splits)
  from cand fin have "fst (refine2_wavelength ?ext maxiter fixed s) = ?s1"
    using assms by (auto simp: refine2_wavelength_def Let_def)
  moreover
  have "wavelength_of_param binary64 (wavelength_to_param binary64 (binary64 (236 / 10 ^ 12)))
          \<noteq> binary64 (236 / 10 ^ 12)"
    by (simp only: binary64_wavelength wavelength_to_param_236 wavelength_of_param_236) simp
  ultimately show ?thesis
    using assms by simp
qed

text \<open>The instance: the engine at \<open>poni1 = 2\<close> with the wavelength \<open>10\<^sup>-\<^sup>1\<^sup>0\<close>.\<close>

theorem refine2_wavelength_noop_keeps_wavelength_witness:
  "wavelength ((engine_at 2)\<lparr>wavelength := Some (1 / 10 ^ 10)\<rparr>) = Some (1 / 10 ^ 10)
 \<and> wavelength (fst (refine2_wavelength idle_ext 1000000 [''wavelength'']
                      ((engine_at 2)\<lparr>wavelength := Some (1 / 10 ^ 10)\<rparr>))) = Some (1 / 10 ^ 10)
 \<and> pose (fst (refine2_wavelength idle_ext 1000000 [''wavelength'']
                ((engine_at 2)\<lparr>wavelength := Some (1 / 10 ^ 10)\<rparr>))) = [1, 2, 0, 0, 0, 0]
 \<and> param (fst (refine2_wavelength idle_ext 1000000 [''wavelength'']
                 ((engine_at 2)\<lparr>wavelength := Some (1 / 10 ^ 10)\<rparr>)))
      = NdArray [1, 2, 0, 0, 0, 0, 1]"
proof -
  have e: "idle_ext\<lparr>sp_fmin_slsqp := (\<lambda>f x0 it bounds. Inr x0)\<rparr> = idle_ext"
    by (simp add: idle_ext_def)
  have h: "wavelength ((engine_at 2)\<lparr>wavelength := Some (1 / 10 ^ 10)\<rparr>) = Some (1 / 10 ^ 10)"
    by simp
  from refine2_wavelength_noop_keeps_wavelength [OF h, of idle_ext 1000000 "[''wavelength'']"] h
  show ?thesis
    by (simp add: e) (simp add: snapshot_wavelength_def engine_at_def pose_def)
qed

text \<open>
  The claim as first stated explains the equality by the two rescalings, times \<^verbatim>\<open>1e10\<close>
  at entry and times \<^verbatim>\<open>1e-10\<close> on commit, composing to the identity on the committed
  value. In exact arithmetic they do; on floats they do not. The float \<^verbatim>\<open>2.36e-10\<close> has
  the significand 4564903894864840 over \<open>2\<^sup>8\<^sup>4\<close>; line 282 makes its seventh entry
  \<^verbatim>\<open>2.3600000000000003\<close>, and line 317 would write back the significand
  4564903894864841, the float \<^verbatim>\<open>2.3600000000000006e-10\<close>. A commit that leaves the
  seventh entry where the snapshot put it, as the default bounds of
  \<^verbatim>\<open>fix=["wavelength"]\<close> force, therefore moves the wavelength by one unit in the last
  place.
\<close>

theorem wavelength_round_trip_not_identity:
  "binary64 (236 / 10 ^ 12) = 4564903894864840 / 2 ^ 84
 \<and> wavelength_to_param binary64 (4564903894864840 / 2 ^ 84) = 5314247560297186 / 2 ^ 51
 \<and> wavelength_of_param binary64 (5314247560297186 / 2 ^ 51) = 4564903894864841 / 2 ^ 84
 \<and> wavelength_of_param binary64 (wavelength_to_param binary64 (4564903894864840 / 2 ^ 84))
     \<noteq> 4564903894864840 / 2 ^ 84
 \<and> wavelength_of_param (\<lambda>x. x) (wavelength_to_param (\<lambda>x. x) (4564903894864840 / 2 ^ 84))
     = 4564903894864840 / 2 ^ 84"
  by (simp only: binary64_wavelength wavelength_to_param_236 wavelength_of_param_236)
     (simp add: wavelength_to_param_def wavelength_of_param_def)

subsection \<open>set_tolerance near zero\<close>

text \<open>
  C7, as amended. With tolerance value 10 and \<open>poni1 = 0\<close>, \<^verbatim>\<open>set_tolerance\<close> sets the
  bounds of \<open>poni1\<close> to \<open>\<mp> h\<close>, where \<open>h\<close> is \<^verbatim>\<open>(10 / 100.) ** 2\<close> as floats give it:
  \<^verbatim>\<open>10 / 100.\<close> is the float \<^verbatim>\<open>0.1\<close>, and its square rounds to the significand
  5764607523034236 over \<open>2\<^sup>5\<^sup>9\<close>, which prints as \<^verbatim>\<open>0.010000000000000002\<close> and lies above
  \<open>1 / 100\<close> by less than \<open>2 / 10\<^sup>1\<^sup>8\<close>. In exact arithmetic the half-width is
  \<open>(10 / 100)\<^sup>2 = 1 / 100\<close>. The branch for a value near zero takes the half-width
  \<open>(value / 100)\<^sup>2\<close>, where the other branch would scale \<open>poni1\<close> by \<open>1 \<mp> value / 100\<close>
  and give \<open>(0, 0)\<close> here. The two bounds are written whatever the wavelength is.
\<close>

theorem set_tolerance_degenerate_poni1:
  assumes "poni1 s = 0"
  shows "poni1_min (fst (set_tolerance_rounded binary64 10 s)) = - (5764607523034236 / 2 ^ 59)
       \<and> poni1_max (fst (set_tolerance_rounded binary64 10 s)) = 5764607523034236 / 2 ^ 59
       \<and> binary64 ((binary64 (10 / 100)) ^ 2) = 5764607523034236 / 2 ^ 59
       \<and> (1 / 100 :: real) < 5764607523034236 / 2 ^ 59
       \<and> (5764607523034236 / 2 ^ 59 :: real) < 1 / 100 + 2 / 10 ^ 18
       \<and> binary64 (1 / 100) = 5764607523034235 / 2 ^ 59
       \<and> poni1_max (fst (set_tolerance 10 s)) = (10 / 100) ^ 2
       \<and> (min (binary64 (binary64 (1 - binary64 (10 / 100)) * poni1 s))
               (binary64 (binary64 (1 + binary64 (10 / 100)) * poni1 s)),
           max (binary64 (binary64 (1 - binary64 (10 / 100)) * poni1 s))
               (binary64 (binary64 (1 + binary64 (10 / 100)) * poni1 s))) = (0, 0)"
proof -
  have h: "binary64 ((binary64 (10 / 100)) ^ 2) = 5764607523034236 / 2 ^ 59"
    by (rule binary64_square_of_tenth)
  have nn: "0 \<le> binary64 ((binary64 (10 / 100)) ^ 2)"
    by (simp only: h) simp
  note b = set_tolerance_rounded_poni1_zero [of s binary64 10, OF assms nn]
  have e: "poni1_max (fst (set_tolerance 10 s)) = (10 / 100) ^ 2"
    using assms by (cases "wavelength s") (simp_all add: set_tolerance_def Let_def)
  from assms show ?thesis
    by (simp only: b h e binary64_hundredth) simp
qed

text \<open>
  The instance: the engine at \<open>poni1 = 0\<close> without a wavelength. The call raises TypeError
  on the last two bounds, after those of \<open>poni1\<close> are written.
\<close>

theorem set_tolerance_degenerate_poni1_witness:
  "poni1 ((engine_at 0)\<lparr>wavelength := None\<rparr>) = 0
 \<and> poni1_min (fst (set_tolerance_rounded binary64 10 ((engine_at 0)\<lparr>wavelength := None\<rparr>)))
      = - (5764607523034236 / 2 ^ 59)
 \<and> poni1_max (fst (set_tolerance_rounded binary64 10 ((engine_at 0)\<lparr>wavelength := None\<rparr>)))
      = 5764607523034236 / 2 ^ 59
 \<and> snd (set_tolerance_rounded binary64 10 ((engine_at 0)\<lparr>wavelength := None\<rparr>)) = Inl TypeError"
proof -
  have h: "poni1 ((engine_at 0)\<lparr>wavelength := None\<rparr>) = 0"
    by (simp add: engine_at_def)
  have r: "snd (set_tolerance_rounded binary64 10 ((engine_at 0)\<lparr>wavelength := None\<rparr>))
             = Inl TypeError"
    by (simp add: set_tolerance_rounded_def Let_def)
  from h r set_tolerance_degenerate_poni1 [OF h] show ?thesis
    by simp
qed

text \<open>
  The claim as first stated has the bounds exactly \<open>(-0.01, 0.01)\<close>. The float
  \<^verbatim>\<open>0.01\<close> has the significand 5764607523034235 over \<open>2\<^sup>5\<^sup>9\<close>; the bounds that the call
  writes on the engine at \<open>poni1 = 0\<close> are one unit in the last place further out, and equal
  neither that float nor the number \<open>1 / 100\<close>.
\<close>

theorem set_tolerance_poni1_bounds_not_hundredth:
  "poni1 (engine_at 0) = 0
 \<and> poni1_min (fst (set_tolerance_rounded binary64 10 (engine_at 0))) = - (5764607523034236 / 2 ^ 59)
 \<and> poni1_max (fst (set_tolerance_rounded binary64 10 (engine_at 0))) = 5764607523034236 / 2 ^ 59
 \<and> binary64 (1 / 100) = 5764607523034235 / 2 ^ 59
 \<and> poni1_max (fst (set_tolerance_rounded binary64 10 (engine_at 0))) \<noteq> binary64 (1 / 100)
 \<and> poni1_max (fst (set_tolerance_rounded binary64 10 (engine_at 0))) \<noteq> 1 / 100
 \<and> poni1_min (fst (set_tolerance_rounded binary64 10 (engine_at 0))) \<noteq> - binary64 (1 / 100)
 \<and> poni1_min (fst (set_tolerance_rounded binary64 10 (engine_at 0))) \<noteq> - (1 / 100)"
proof -
  have h: "poni1 (engine_at 0) = 0"
    by (simp add: engine_at_def)
  have s: "binary64 ((binary64 (10 / 100)) ^ 2) = 5764607523034236 / 2 ^ 59"
    by (rule binary64_square_of_tenth)
  have nn: "0 \<le> binary64 ((binary64 (10 / 100)) ^ 2)"
    by (simp only: s) simp
  note b = set_tolerance_rounded_poni1_zero [of "engine_at 0" binary64 10, OF h nn]
  show ?thesis
    by (simp only: b s h binary64_hundredth) simp
qed

subsection \<open>Datasets of the wrong width\<close>

text \<open>
  C8. On a dataset whose column count is neither 3 nor 4, \<^verbatim>\<open>refine2\<close> and
  \<^verbatim>\<open>refine2_wavelength\<close> raise an error, and the six pose fields and the wavelength are
  what they were before the call.
\<close>

theorem bounded_strategies_need_3_or_4_columns:
  assumes "ncols (data s) \<noteq> 3" "ncols (data s) \<noteq> 4"
  shows "(\<exists>e. snd (refine2 ext maxiter fixed s) = Inl e)
       \<and> pose_wl (fst (refine2 ext maxiter fixed s)) = pose_wl s
       \<and> (\<exists>e. snd (refine2_wavelength ext maxiter fixed s) = Inl e)
       \<and> pose_wl (fst (refine2_wavelength ext maxiter fixed s)) = pose_wl s"
proof -
  have c: "refine2_candidate ext maxiter fixed (snapshot s) = Inr None"
    using assms by (simp add: refine2_candidate_def)
  have r: "refine2 ext maxiter fixed s = refine2_finish ext (snapshot s) None"
    by (simp add: refine2_def c)
  have cw: "refine2_wavelength_candidate ext maxiter fixed (snapshot_wavelength s w) w = Inr None"
    for w
    using assms by (simp add: refine2_wavelength_candidate_def Let_def)
  have fw: "(\<exists>e. snd (refine2_wavelength_finish ext (snapshot_wavelength s w) None) = Inl e)
          \<and> fst (refine2_wavelength_finish ext (snapshot_wavelength s w) None)
              = snapshot_wavelength s w" for w
    by (auto simp: refine2_wavelength_finish_def split: sum.splits)
  have rw: "(\<exists>e. snd (refine2_wavelength ext maxiter fixed s) = Inl e)
          \<and> pose_wl (fst (refine2_wavelength ext maxiter fixed s)) = pose_wl s"
  proof (cases "wavelength s")
    case None
    then show ?thesis by (simp add: refine2_wavelength_def)
  next
    case (Some w)
    with fw [of w] show ?thesis by (simp add: refine2_wavelength_def cw)
  qed
  from r rw refine2_finish_unbound [of ext "snapshot s"]
    refine2_finish_unbound_state [of ext "snapshot s"]
  show ?thesis by simp
qed

text \<open>
  The instance: five columns. Both calls store their snapshot in \<^verbatim>\<open>self.param\<close>, evaluate
  the old chi-squared and raise UnboundLocalError on \<^verbatim>\<open>newParam\<close>.
\<close>

theorem bounded_strategies_need_3_or_4_columns_witness:
  "ncols (data ((engine_at 2)\<lparr>data := five_columns\<rparr>)) \<noteq> 3
 \<and> ncols (data ((engine_at 2)\<lparr>data := five_columns\<rparr>)) \<noteq> 4
 \<and> refine2 idle_ext 1000000 [''wavelength''] ((engine_at 2)\<lparr>data := five_columns\<rparr>)
     = (snapshot ((engine_at 2)\<lparr>data := five_columns\<rparr>), Inl UnboundLocalError)
 \<and> pose_wl (fst (refine2 idle_ext 1000000 [''wavelength'']
                   ((engine_at 2)\<lparr>data := five_columns\<rparr>)))
     = pose_wl ((engine_at 2)\<lparr>data := five_columns\<rparr>)
 \<and> refine2_wavelength idle_ext 1000000 [''wavelength''] ((engine_at 2)\<lparr>data := five_columns\<rparr>)
     = (snapshot_wavelength ((engine_at 2)\<lparr>data := five_columns\<rparr>) 0, Inl UnboundLocalError)
 \<and> pose_wl (fst (refine2_wavelength idle_ext 1000000 [''wavelength'']
                   ((engine_at 2)\<lparr>data := five_columns\<rparr>)))
     = pose_wl ((engine_at 2)\<lparr>data := five_columns\<rparr>)"
proof -
  have h: "ncols (data ((engine_at 2)\<lparr>data := five_columns\<rparr>)) \<noteq> 3"
    "ncols (data ((engine_at 2)\<lparr>data := five_columns\<rparr>)) \<noteq> 4"
    by (simp_all add: five_columns_def)
  have x: "xyz five_columns = Inr ([0], [0], [0])"
    by (simp add: xyz_def column_def five_columns_def)
  have c: "chi2 idle_ext ((engine_at 2)\<lparr>data := five_columns\<rparr>) (Some p)
             = Inr (Num (p ! 1 * p ! 1))" for p
    by (simp add: chi2_def x residu2_def residu1_def
      calc_2th_def to_int32_def np_arcsin_quot_def tth_arr_def nsum_def nsq_def)
  have cw: "snd (chi2_wavelength idle_ext ((engine_at 2)\<lparr>data := five_columns\<rparr>)
                  (Some [1, 2, 0, 0, 0, 0, 0])) = Inr (Num 4)"
    by (simp add: chi2_wavelength_def x residu2_wavelength_def residu1_wavelength_def
      astype_int32_def calc_2th_def to_int32_def np_arcsin_quot_def tth_arr_def nsum_def nsq_def)
  have r2: "refine2 idle_ext 1000000 [''wavelength''] ((engine_at 2)\<lparr>data := five_columns\<rparr>)
     = (snapshot ((engine_at 2)\<lparr>data := five_columns\<rparr>), Inl UnboundLocalError)"
    using h by (simp add: refine2_def refine2_candidate_def refine2_finish_def c)
  have pf: "dist_f (engine_at 2) = 1" "poni1 (engine_at 2) = 2" "poni2 (engine_at 2) = 0"
    "rot1 (engine_at 2) = 0" "rot2 (engine_at 2) = 0" "rot3 (engine_at 2) = 0"
    by (simp_all add: engine_at_def)
  have r2w: "refine2_wavelength idle_ext 1000000 [''wavelength'']
       ((engine_at 2)\<lparr>data := five_columns\<rparr>)
     = (snapshot_wavelength ((engine_at 2)\<lparr>data := five_columns\<rparr>) 0, Inl UnboundLocalError)"
    using h cw
    by (simp add: refine2_wavelength_def refine2_wavelength_candidate_def
        refine2_wavelength_finish_def Let_def pose_def pf)
  from h r2 r2w
    bounded_strategies_need_3_or_4_columns [OF h, of idle_ext 1000000 "[''wavelength'']"]
  show ?thesis by simp
qed

subsection \<open>guess_poni\<close>

text \<open>
  C9. \<^verbatim>\<open>guess_poni\<close> raises an error on a dataset without rows and leaves the state as it
  was. On a dataset of at least three columns in which exactly one row \<open>p\<close> has its third
  entry below the smallest third entry plus \<^verbatim>\<open>1e-6\<close>, it sets \<open>poni1\<close> and \<open>poni2\<close> to the
  metric coordinates of the pixel position of \<open>p\<close> and changes nothing else.
\<close>

theorem guess_poni_empty_and_single:
  "(rows (data s) = [] \<longrightarrow> (\<exists>e. guess_poni ext s = (s, Inl e)))
 \<and> (3 \<le> ncols (data s)
      \<and> filter (\<lambda>r. r ! 2 < Min (set (map (\<lambda>r. r ! 2) (rows (data s)))) + 1 / 10 ^ 6)
           (rows (data s)) = [p]
     \<longrightarrow> guess_poni ext s
          = (s\<lparr>poni1 := fst (calc_cartesian ext (p ! 0) (p ! 1)),
                poni2 := snd (calc_cartesian ext (p ! 0) (p ! 1))\<rparr>, Inr ()))"
proof (intro conjI impI)
  assume "rows (data s) = []"
  then show "\<exists>e. guess_poni ext s = (s, Inl e)"
    by (simp add: guess_poni_def column_def)
next
  assume a: "3 \<le> ncols (data s)
      \<and> filter (\<lambda>r. r ! 2 < Min (set (map (\<lambda>r. r ! 2) (rows (data s)))) + 1 / 10 ^ 6)
           (rows (data s)) = [p]"
  then have ne: "rows (data s) \<noteq> []"
    by auto
  have "length (sort_key (\<lambda>x. x) (map (\<lambda>r. r ! 2) (rows (data s)))) \<noteq> 0"
    using ne by simp
  then have se: "sort_key (\<lambda>x. x) (map (\<lambda>r. r ! 2) (rows (data s))) \<noteq> []"
    by fastforce
  have f: "filter (\<lambda>r. r ! 2 < Min (set (map (\<lambda>r. r ! 2) (rows (data s)))) + 1 / 10 ^ 6)
             (sort_key (\<lambda>r. r ! 2) (rows (data s))) = [p]"
    using a by (simp add: filter_sort)
  show "guess_poni ext s
          = (s\<lparr>poni1 := fst (calc_cartesian ext (p ! 0) (p ! 1)),
                poni2 := snd (calc_cartesian ext (p ! 0) (p ! 1))\<rparr>, Inr ())"
    using a ne f se by (simp add: guess_poni_def column_def Let_def)
qed

text \<open>
  The instances: a dataset of three columns and no row, on which the call raises; and the
  rows \<open>(7, 8, 0.2)\<close> and \<open>(3, 4, 0.1)\<close>, whose innermost ring is the second row alone, with
  the identity as pixel-to-metric map: the centre becomes \<open>(3, 4)\<close>.
\<close>

theorem guess_poni_empty_and_single_witness:
  "rows (data ((engine_at 5)\<lparr>data := \<lparr>ncols = 3, rows = []\<rparr>\<rparr>)) = []
 \<and> (\<exists>e. guess_poni idle_ext ((engine_at 5)\<lparr>data := \<lparr>ncols = 3, rows = []\<rparr>\<rparr>)
           = ((engine_at 5)\<lparr>data := \<lparr>ncols = 3, rows = []\<rparr>\<rparr>, Inl e))
 \<and> 3 \<le> ncols (data ((engine_at 5)\<lparr>data := \<lparr>ncols = 3, rows = [[7, 8, 0.2], [3, 4, 0.1]]\<rparr>\<rparr>))
 \<and> filter (\<lambda>r. r ! 2 < Min (set (map (\<lambda>r. r ! 2) [[7, 8, 0.2], [3, 4, 0.1 :: real]])) + 1 / 10 ^ 6)
      [[7, 8, 0.2], [3, 4, 0.1]] = [[3, 4, 0.1]]
 \<and> guess_poni idle_ext ((engine_at 5)\<lparr>data := \<lparr>ncols = 3, rows = [[7, 8, 0.2], [3, 4, 0.1]]\<rparr>\<rparr>)
     = ((engine_at 5)\<lparr>data := \<lparr>ncols = 3, rows = [[7, 8, 0.2], [3, 4, 0.1]]\<rparr>,
                      poni1 := 3, poni2 := 4\<rparr>, Inr ())"
  using guess_poni_empty_and_single
          [where s = "(engine_at 5)\<lparr>data := \<lparr>ncols = 3, rows = []\<rparr>\<rparr>" and ext = idle_ext]
        guess_poni_empty_and_single
          [where s = "(engine_at 5)\<lparr>data := \<lparr>ncols = 3, rows = [[7, 8, 0.2], [3, 4, 0.1]]\<rparr>\<rparr>"
             and p = "[3, 4, 0.1]" and ext = idle_ext]
  by (simp add: idle_ext_def)

subsection \<open>set_tolerance on the distance and the wavelength\<close>

text \<open>
  C10. \<^verbatim>\<open>set_tolerance\<close> sets the bounds of \<open>dist\<close> and of the wavelength by scaling the
  current value with \<open>1 - value / 100\<close> and \<open>1 + value / 100\<close>, whatever that value is;
  only \<open>poni1\<close>, \<open>poni2\<close>, \<open>rot1\<close>, \<open>rot2\<close> and \<open>rot3\<close> get the window
  \<open>\<mp> (value / 100)\<^sup>2\<close> when their value is at most \<open>(value / 100)\<^sup>2\<close> in absolute value.
  With \<open>dist = 0\<close> both distance bounds are 0.
\<close>

theorem set_tolerance_linear_dist_wavelength:
  "dist_min (fst (set_tolerance value s)) = (1 - value / 100) * dist_f s
 \<and> dist_max (fst (set_tolerance value s)) = (1 + value / 100) * dist_f s
 \<and> (wavelength s = Some w \<longrightarrow>
      wavelength_min (fst (set_tolerance value s)) = (1 - value / 100) * w
    \<and> wavelength_max (fst (set_tolerance value s)) = (1 + value / 100) * w)
 \<and> (dist_f s = 0 \<longrightarrow>
      dist_min (fst (set_tolerance value s)) = 0 \<and> dist_max (fst (set_tolerance value s)) = 0)
 \<and> (\<bar>poni1 s\<bar> \<le> (value / 100) ^ 2 \<longrightarrow>
      poni1_min (fst (set_tolerance value s)) = - ((value / 100) ^ 2)
    \<and> poni1_max (fst (set_tolerance value s)) = (value / 100) ^ 2)
 \<and> (\<bar>poni2 s\<bar> \<le> (value / 100) ^ 2 \<longrightarrow>
      poni2_min (fst (set_tolerance value s)) = - ((value / 100) ^ 2)
    \<and> poni2_max (fst (set_tolerance value s)) = (value / 100) ^ 2)
 \<and> (\<bar>rot1 s\<bar> \<le> (value / 100) ^ 2 \<longrightarrow>
      rot1_min (fst (set_tolerance value s)) = - ((value / 100) ^ 2)
    \<and> rot1_max (fst (set_tolerance value s)) = (value / 100) ^ 2)
 \<and> (\<bar>rot2 s\<bar> \<le> (value / 100) ^ 2 \<longrightarrow>
      rot2_min (fst (set_tolerance value s)) = - ((value / 100) ^ 2)
    \<and> rot2_max (fst (set_tolerance value s)) = (value / 100) ^ 2)
 \<and> (\<bar>rot3 s\<bar> \<le> (value / 100) ^ 2 \<longrightarrow>
      rot3_min (fst (set_tolerance value s)) = - ((value / 100) ^ 2)
    \<and> rot3_max (fst (set_tolerance value s)) = (value / 100) ^ 2)"
  by (cases "wavelength s") (simp_all add: set_tolerance_def Let_def)

text \<open>
  The instance: the engine with \<open>dist = 0\<close>, every other pose field 0 as well and the
  wavelength \<open>10\<^sup>-\<^sup>1\<^sup>0\<close>, at tolerance 10. The distance bounds collapse to \<open>(0, 0)\<close> while the
  bounds of \<open>poni1\<close>, also at 0, open to \<open>(-0.01, 0.01)\<close>.
\<close>

theorem set_tolerance_linear_dist_wavelength_witness:
  "wavelength ((engine_at 0)\<lparr>dist_f := 0, wavelength := Some (1 / 10 ^ 10)\<rparr>) = Some (1 / 10 ^ 10)
 \<and> dist_f ((engine_at 0)\<lparr>dist_f := 0, wavelength := Some (1 / 10 ^ 10)\<rparr>) = 0
 \<and> \<bar>poni1 ((engine_at 0)\<lparr>dist_f := 0, wavelength := Some (1 / 10 ^ 10)\<rparr>)\<bar> \<le> (10 / 100) ^ 2
 \<and> dist_min (fst (set_tolerance 10 ((engine_at 0)\<lparr>dist_f := 0, wavelength := Some (1 / 10 ^ 10)\<rparr>))) = 0
 \<and> dist_max (fst (set_tolerance 10 ((engine_at 0)\<lparr>dist_f := 0, wavelength := Some (1 / 10 ^ 10)\<rparr>))) = 0
 \<and> wavelength_min (fst (set_tolerance 10 ((engine_at 0)\<lparr>dist_f := 0, wavelength := Some (1 / 10 ^ 10)\<rparr>)))
     = 0.9 / 10 ^ 10
 \<and> wavelength_max (fst (set_tolerance 10 ((engine_at 0)\<lparr>dist_f := 0, wavelength := Some (1 / 10 ^ 10)\<rparr>)))
     = 1.1 / 10 ^ 10
 \<and> poni1_min (fst (set_tolerance 10 ((engine_at 0)\<lparr>dist_f := 0, wavelength := Some (1 / 10 ^ 10)\<rparr>)))
     = - 0.01
 \<and> poni1_max (fst (set_tolerance 10 ((engine_at 0)\<lparr>dist_f := 0, wavelength := Some (1 / 10 ^ 10)\<rparr>)))
     = 0.01"
  using set_tolerance_linear_dist_wavelength
    [of 10 "(engine_at 0)\<lparr>dist_f := 0, wavelength := Some (1 / 10 ^ 10)\<rparr>" "1 / 10 ^ 10"]
  by (simp add: engine_at_def power2_eq_square)

end
